theory Spec2Isabelle
  imports Complex_Main "HOL-Library.List_Lexorder" "HOL-Library.Char_ord" "HOL-Library.Sublist"
begin

section \<open>Values, dictionaries and errors\<close>

text \<open>
  The ledger service of \<^verbatim>\<open>app/main.py\<close> keeps its entries as Python dictionaries
  \<^verbatim>\<open>Dict[str, Any]\<close> in the global list \<^verbatim>\<open>DATA\<close>. A value of type \<^verbatim>\<open>Any\<close> is
  what a JSON body or a CSV row can hold.

  \<^item> A Python \<^verbatim>\<open>str\<close> is modelled by its UTF-8 bytes (\<open>string\<close>): equality and the
    lexicographic order of code points are the same on the bytes; only \<^verbatim>\<open>len\<close> and
    indexing count code points, see \<open>py_len\<close>.
  \<^item> The floats of the report endpoints come in two forms. The general statements about
    \<^verbatim>\<open>GET /entries\<close> are over any implementation of the library functions (see
    \<open>library\<close>), so they do not depend on how doubles round. The scenarios on concrete
    stores run in decimal arithmetic: a float is the exact real number it stands for,
    sums, quotients and roundings are exact, and there are no infinities and no NaN (a
    conversion that would produce them is the error \<open>NonFinite\<close>, which no handler
    catches). Decimal arithmetic gives Python's results on the amounts of the scenarios.
  \<^item> A \<^verbatim>\<open>dict\<close> is an association list in insertion order.
\<close>

datatype pyval =
    PNone
  | PBool bool
  | PInt int
  | PFloat real
  | PStr string
  | PList "pyval list"
  | PDict "(string \<times> pyval) list"

type_synonym entry = "(string \<times> pyval) list"

text \<open>The messages of the four \<^verbatim>\<open>HTTPException(400, ...)\<close> of the source.\<close>

datatype detail =
    Required_date_amount   \<comment> \<open>the message saying that date and amount are required\<close>
  | Date_from_format       \<comment> \<open>\<^verbatim>\<open>date_from must be in YYYY-MM-DD format\<close>\<close>
  | Date_to_format         \<comment> \<open>\<^verbatim>\<open>date_to must be in YYYY-MM-DD format\<close>\<close>
  | Year_month_format      \<comment> \<open>the message asking for the form YYYY-MM\<close>

datatype py_error =
    HTTPException nat detail
  | ValueError
  | TypeError
  | KeyError
  | AttributeError
  | OverflowError
  | ValidationError
  | NonFinite

text \<open>Python truthiness, as tested by \<^verbatim>\<open>not x\<close>, \<^verbatim>\<open>x or y\<close> and \<^verbatim>\<open>if x\<close>.\<close>

fun truthy :: "pyval \<Rightarrow> bool" where
  "truthy PNone = False"
| "truthy (PBool b) = b"
| "truthy (PInt i) = (i \<noteq> 0)"
| "truthy (PFloat r) = (r \<noteq> 0)"
| "truthy (PStr s) = (s \<noteq> [])"
| "truthy (PList xs) = (xs \<noteq> [])"
| "truthy (PDict kvs) = (kvs \<noteq> [])"

text \<open>\<^verbatim>\<open>d.get(k)\<close>, \<^verbatim>\<open>d.get(k, default)\<close> and \<^verbatim>\<open>d.setdefault(k, v)\<close>.\<close>

definition dict_get :: "entry \<Rightarrow> string \<Rightarrow> pyval" where
  "dict_get d k = (case map_of d k of None \<Rightarrow> PNone | Some v \<Rightarrow> v)"

definition dict_get_default :: "entry \<Rightarrow> string \<Rightarrow> pyval \<Rightarrow> pyval" where
  "dict_get_default d k dflt = (case map_of d k of None \<Rightarrow> dflt | Some v \<Rightarrow> v)"

definition setdefault :: "entry \<Rightarrow> string \<Rightarrow> pyval \<Rightarrow> entry" where
  "setdefault d k v = (case map_of d k of None \<Rightarrow> d @ [(k, v)] | Some _ \<Rightarrow> d)"

text \<open>The sentinel category of the source, three CJK characters, as UTF-8.\<close>

definition uncategorized :: string where
  "uncategorized =
     [CHR 0xE6, CHR 0x9C, CHR 0xAA, CHR 0xE5, CHR 0x88, CHR 0x86, CHR 0xE9, CHR 0xA1, CHR 0x9E]"

section \<open>The store and batch creation\<close>

text \<open>
  The state of the service is the list \<^verbatim>\<open>DATA\<close>. \<^verbatim>\<open>uuid.uuid4()\<close> is modelled by a
  generator \<open>uuid4 :: nat \<Rightarrow> string\<close>, the \<open>n\<close>-th identifier drawn since the start,
  and the state counts the draws.
\<close>

record state =
  DATA :: "entry list"
  drawn :: nat

record create_response =
  status :: string
  created :: nat
  created_entries :: "entry list"

text \<open>
  The loop of \<^verbatim>\<open>create_entries\<close>. \<^verbatim>\<open>str(uuid.uuid4())\<close> is the argument of
  \<^verbatim>\<open>setdefault\<close>, so an identifier is drawn for every record, used or not. A record
  that fails the check raises: the records before it are already in \<^verbatim>\<open>DATA\<close>.
\<close>

fun create_loop ::
  "(nat \<Rightarrow> string) \<Rightarrow> entry list \<Rightarrow> entry list \<Rightarrow> state \<Rightarrow> (py_error + entry list) \<times> state"
where
  "create_loop uuid4 [] acc s = (Inr acc, s)"
| "create_loop uuid4 (e # es) acc s =
     (let e1 = setdefault e ''id'' (PStr (uuid4 (drawn s)));
          s1 = s\<lparr>drawn := Suc (drawn s)\<rparr>
      in if \<not> truthy (dict_get e1 ''date'') \<or> \<not> truthy (dict_get e1 ''amount'')
         then (Inl (HTTPException 400 Required_date_amount), s1)
         else
           let e2 = setdefault e1 ''category'' (PStr uncategorized);
               e3 = setdefault e2 ''description'' (PStr [])
           in create_loop uuid4 es (acc @ [e3]) (s1\<lparr>DATA := DATA s1 @ [e3]\<rparr>))"

text \<open>The trim \<^verbatim>\<open>if len(DATA) > 10_000: DATA[:] = DATA[-10_000:]\<close>.\<close>

definition trim :: "entry list \<Rightarrow> entry list" where
  "trim d = (if length d > 10000 then drop (length d - 10000) d else d)"

definition create_entries ::
  "(nat \<Rightarrow> string) \<Rightarrow> entry list \<Rightarrow> state \<Rightarrow> (py_error + create_response) \<times> state"
where
  "create_entries uuid4 entries s =
     (case create_loop uuid4 entries [] s of
        (Inl err, s1) \<Rightarrow> (Inl err, s1)
      | (Inr acc, s1) \<Rightarrow>
          (Inr \<lparr>status = ''success'', created = length acc, created_entries = acc\<rparr>,
           s1\<lparr>DATA := trim (DATA s1)\<rparr>))"

text \<open>
  \<^verbatim>\<open>create_entries_csv\<close> decodes the upload and reads it with \<^verbatim>\<open>csv.DictReader\<close>;
  both belong to the Python library and are taken as the parameter \<open>reader\<close>, which
  yields the rows or the exception of the decoding. The rows go through
  \<^verbatim>\<open>create_entries\<close>.
\<close>

definition create_entries_csv ::
  "(string \<Rightarrow> py_error + entry list) \<Rightarrow> (nat \<Rightarrow> string) \<Rightarrow> string \<Rightarrow> state
     \<Rightarrow> (py_error + create_response) \<times> state"
where
  "create_entries_csv reader uuid4 file s =
     (case reader file of
        Inl err \<Rightarrow> (Inl err, s)
      | Inr payload \<Rightarrow> create_entries uuid4 payload s)"

section \<open>Strings and numbers of Python\<close>

text \<open>
  \<^verbatim>\<open>len(s)\<close> counts code points: the bytes that are not UTF-8 continuation bytes.
  \<open>code_points\<close> cuts a string into its code points, for \<^verbatim>\<open>s[i]\<close>.
\<close>

definition is_continuation :: "char \<Rightarrow> bool" where
  "is_continuation c = (128 \<le> (of_char c :: nat) \<and> (of_char c :: nat) < 192)"

definition py_len :: "string \<Rightarrow> nat" where
  "py_len s = length (filter (\<lambda>c. \<not> is_continuation c) s)"

function code_points :: "string \<Rightarrow> string list" where
  "code_points [] = []"
| "code_points (c # cs) =
     (c # takeWhile is_continuation cs) # code_points (dropWhile is_continuation cs)"
  by pat_completeness auto
termination
  by (relation "measure length") (auto simp: length_dropWhile_le less_Suc_eq_le)

definition is_digit :: "char \<Rightarrow> bool" where
  "is_digit c = (CHR ''0'' \<le> c \<and> c \<le> CHR ''9'')"

definition is_space :: "char \<Rightarrow> bool" where
  "is_space c = (c = CHR '' '' \<or> (9 \<le> (of_char c :: nat) \<and> (of_char c :: nat) \<le> 13))"

definition strip :: "string \<Rightarrow> string" where
  "strip s = rev (dropWhile is_space (rev (dropWhile is_space s)))"

definition to_lower :: "char \<Rightarrow> char" where
  "to_lower c =
     (case map_of (zip ''ABCDEFGHIJKLMNOPQRSTUVWXYZ'' ''abcdefghijklmnopqrstuvwxyz'') c of
        None \<Rightarrow> c
      | Some l \<Rightarrow> l)"

definition nat_of_digits :: "string \<Rightarrow> nat" where
  "nat_of_digits ds = foldl (\<lambda>a c. 10 * a + ((of_char c :: nat) - 48)) 0 ds"

text \<open>
  From here on the section is decimal arithmetic, in which the scenarios run.

  \<^verbatim>\<open>float(s)\<close> on a string: surrounding white space (the space and the characters 9
  to 13) is dropped, then an optional sign, then \<^verbatim>\<open>inf\<close>, \<^verbatim>\<open>infinity\<close> or \<^verbatim>\<open>nan\<close> in
  any case (no decimal number: \<open>NonFinite\<close>), or a decimal literal: digits with an
  optional point and an optional exponent, where single underscores may stand between
  digits. Anything else is \<^verbatim>\<open>ValueError\<close>. The value is the exact decimal number, not the
  nearest double; digits and white space beyond ASCII are not read.
\<close>

fun underscores_ok :: "char \<Rightarrow> string \<Rightarrow> bool" where
  "underscores_ok p [] = True"
| "underscores_ok p (c # cs) =
     ((if c = CHR ''_''
       then is_digit p \<and> (case cs of [] \<Rightarrow> False | d # _ \<Rightarrow> is_digit d)
       else True)
      \<and> underscores_ok c cs)"

fun parse_exponent :: "real \<Rightarrow> string \<Rightarrow> real option" where
  "parse_exponent m [] = Some m"
| "parse_exponent m (c # cs) =
     (if c = CHR ''e'' \<or> c = CHR ''E'' then
        (let neg = (case cs of [] \<Rightarrow> False | d # _ \<Rightarrow> d = CHR ''-'');
             ds = (case cs of [] \<Rightarrow> [] | d # r \<Rightarrow> if d = CHR ''-'' \<or> d = CHR ''+'' then r else cs)
         in if ds \<noteq> [] \<and> list_all is_digit ds
            then Some (if neg then m / 10 ^ nat_of_digits ds else m * 10 ^ nat_of_digits ds)
            else None)
      else None)"

definition parse_unsigned :: "string \<Rightarrow> real option" where
  "parse_unsigned s =
     (let ip = takeWhile is_digit s; r1 = dropWhile is_digit s
      in case r1 of
           [] \<Rightarrow> if ip = [] then None else Some (of_nat (nat_of_digits ip))
         | c # r2 \<Rightarrow>
             if c = CHR ''.'' then
               (let fp = takeWhile is_digit r2; r3 = dropWhile is_digit r2
                in if ip = [] \<and> fp = [] then None
                   else parse_exponent
                          (of_nat (nat_of_digits ip) + of_nat (nat_of_digits fp) / 10 ^ length fp) r3)
             else if ip = [] then None
             else parse_exponent (of_nat (nat_of_digits ip)) r1)"

text \<open>A magnitude of \<open>2^1024 - 2^970\<close> or more rounds to an infinite double.\<close>

definition double_limit :: real where
  "double_limit = 2 ^ 1024 - 2 ^ 970"

definition float_of_str :: "string \<Rightarrow> py_error + real" where
  "float_of_str s0 =
     (let s = strip s0;
          neg = (case s of [] \<Rightarrow> False | c # _ \<Rightarrow> c = CHR ''-'');
          body = (case s of [] \<Rightarrow> [] | c # r \<Rightarrow> if c = CHR ''-'' \<or> c = CHR ''+'' then r else s);
          low = map to_lower body
      in if low = ''inf'' \<or> low = ''infinity'' \<or> low = ''nan'' then Inl NonFinite
         else if \<not> underscores_ok CHR '' '' body then Inl ValueError
         else case parse_unsigned (filter (\<lambda>c. c \<noteq> CHR ''_'') body) of
                None \<Rightarrow> Inl ValueError
              | Some x \<Rightarrow> if double_limit \<le> x then Inl NonFinite
                          else Inr (if neg then - x else x))"

text \<open>
  \<^verbatim>\<open>float(v)\<close> on any value. An integer too large for a double raises
  \<^verbatim>\<open>OverflowError\<close>; \<^verbatim>\<open>None\<close>, lists and dictionaries raise \<^verbatim>\<open>TypeError\<close>.
\<close>

fun py_float :: "pyval \<Rightarrow> py_error + real" where
  "py_float PNone = Inl TypeError"
| "py_float (PBool b) = Inr (if b then 1 else 0)"
| "py_float (PInt i) = (if \<bar>of_int i\<bar> < double_limit then Inr (of_int i) else Inl OverflowError)"
| "py_float (PFloat r) = Inr r"
| "py_float (PStr s) = float_of_str s"
| "py_float (PList xs) = Inl TypeError"
| "py_float (PDict kvs) = Inl TypeError"

text \<open>
  \<^verbatim>\<open>str\<close> of a number. For a float decimal arithmetic writes the decimal expansion of
  the exact value with at least one and at most 16 digits after the point. This is
  Python's output for the amounts of the scenarios; it is not Python's output for a
  double that is only near a short decimal, nor for the very large and very small floats
  that Python writes with an exponent.
\<close>

definition digit_char :: "nat \<Rightarrow> char" where
  "digit_char n = ''0123456789'' ! n"

fun str_nat :: "nat \<Rightarrow> string" where
  "str_nat n = (if n < 10 then [digit_char n] else str_nat (n div 10) @ [digit_char (n mod 10)])"

declare str_nat.simps [simp del]

fun frac_digits :: "nat \<Rightarrow> real \<Rightarrow> string" where
  "frac_digits n x =
     (if n = 0 \<or> x = 0 then []
      else digit_char (nat \<lfloor>x * 10\<rfloor>) # frac_digits (n - 1) (x * 10 - of_int \<lfloor>x * 10\<rfloor>))"

declare frac_digits.simps [simp del]

definition py_str_float :: "real \<Rightarrow> string" where
  "py_str_float r =
     (let a = \<bar>r\<bar>; ds = frac_digits 16 (a - of_int \<lfloor>a\<rfloor>)
      in (if r < 0 then ''-'' else []) @ str_nat (nat \<lfloor>a\<rfloor>) @ ''.'' @ (if ds = [] then ''0'' else ds))"

definition py_str_int :: "int \<Rightarrow> string" where
  "py_str_int i = (if i < 0 then ''-'' else []) @ str_nat (nat \<bar>i\<bar>)"

text \<open>
  \<^verbatim>\<open>round(x, 2)\<close> in decimal arithmetic: the exact value goes to the nearest multiple of
  0.01, a tie to the even one. (Python rounds the double it has computed, which can lie
  just below a tie of the exact value.)
\<close>

definition py_round2 :: "real \<Rightarrow> real" where
  "py_round2 x =
     (let y = x * 100; f = \<lfloor>y\<rfloor>; d = y - of_int f
      in of_int (if d < 1 / 2 then f else if 1 / 2 < d then f + 1
                 else if even f then f else f + 1) / 100)"

text \<open>
  Dictionaries keyed by values. Lists and dictionaries cannot be keys (\<^verbatim>\<open>TypeError\<close>);
  two keys are the same when Python's \<^verbatim>\<open>==\<close> holds, which identifies the numbers
  \<^verbatim>\<open>1\<close>, \<^verbatim>\<open>1.0\<close> and \<^verbatim>\<open>True\<close>. An assignment to a key that is present keeps the key in
  its place.
\<close>

fun hashable :: "pyval \<Rightarrow> bool" where
  "hashable (PList xs) = False"
| "hashable (PDict kvs) = False"
| "hashable v = True"

fun num_of :: "pyval \<Rightarrow> real option" where
  "num_of (PBool b) = Some (if b then 1 else 0)"
| "num_of (PInt i) = Some (of_int i)"
| "num_of (PFloat r) = Some r"
| "num_of v = None"

definition py_eq :: "pyval \<Rightarrow> pyval \<Rightarrow> bool" where
  "py_eq a b = (case (num_of a, num_of b) of (Some x, Some y) \<Rightarrow> x = y | _ \<Rightarrow> a = b)"

fun cat_get :: "(pyval \<times> 'v) list \<Rightarrow> pyval \<Rightarrow> 'v \<Rightarrow> 'v" where
  "cat_get [] k dflt = dflt"
| "cat_get ((k', v) # cs) k dflt = (if py_eq k' k then v else cat_get cs k dflt)"

fun cat_set :: "(pyval \<times> 'v) list \<Rightarrow> pyval \<Rightarrow> 'v \<Rightarrow> (pyval \<times> 'v) list" where
  "cat_set [] k v = [(k, v)]"
| "cat_set ((k', v') # cs) k v = (if py_eq k' k then (k', v) # cs else (k', v') # cat_set cs k v)"

section \<open>Filter and summarize: \<^verbatim>\<open>GET /entries\<close>\<close>

text \<open>
  \<^verbatim>\<open>_is_valid_date_format\<close>: \<^verbatim>\<open>re.match\<close> of the pattern for four digits, a hyphen, two
  digits, a hyphen and two digits between \<^verbatim>\<open>^\<close> and \<^verbatim>\<open>$\<close>. The \<^verbatim>\<open>$\<close> of Python also
  matches before a final newline. Only ASCII digits are modelled.
\<close>

definition date_shape :: "string \<Rightarrow> bool" where
  "date_shape s =
     (length s = 10 \<and> list_all is_digit (take 4 s) \<and> s ! 4 = CHR ''-''
      \<and> list_all is_digit (take 2 (drop 5 s)) \<and> s ! 7 = CHR ''-''
      \<and> list_all is_digit (drop 8 s))"

definition is_valid_date_format :: "string \<Rightarrow> bool" where
  "is_valid_date_format date_str =
     (date_shape date_str
      \<or> (length date_str = 11 \<and> last date_str = CHR 0x0A \<and> date_shape (butlast date_str)))"

text \<open>
  The response model \<^verbatim>\<open>EntrySummary\<close>. Its field \<^verbatim>\<open>categories\<close> is declared
  \<^verbatim>\<open>Dict[str, float]\<close>: building the model from a dictionary with a key that is not a
  string fails its validation.
\<close>

record 'f EntrySummary =
  total :: nat
  total_amount :: string
  categories :: "(string \<times> 'f) list"
  entries :: "entry list"

text \<open>
  A query parameter is \<open>None\<close> when absent. The source tests \<^verbatim>\<open>if date_from and ...\<close>,
  so an empty string switches the filter off like an absent parameter.
\<close>

fun given :: "string option \<Rightarrow> bool" where
  "given None = False"
| "given (Some p) = (p \<noteq> [])"

fun bad_format :: "string option \<Rightarrow> bool" where
  "bad_format None = False"
| "bad_format (Some p) = (p \<noteq> [] \<and> \<not> is_valid_date_format p)"

text \<open>
  The three tests of the scan; \<open>Inr True\<close> is \<^verbatim>\<open>continue\<close>. Comparing a date that is
  not a string with the bound raises \<^verbatim>\<open>TypeError\<close>.
\<close>

fun date_before :: "entry \<Rightarrow> string option \<Rightarrow> py_error + bool" where
  "date_before e None = Inr False"
| "date_before e (Some date_from) =
     (if date_from = [] then Inr False
      else case dict_get_default e ''date'' (PStr []) of
             PStr d \<Rightarrow> Inr (d < date_from)
           | _ \<Rightarrow> Inl TypeError)"

fun date_after :: "entry \<Rightarrow> string option \<Rightarrow> py_error + bool" where
  "date_after e None = Inr False"
| "date_after e (Some date_to) =
     (if date_to = [] then Inr False
      else case dict_get_default e ''date'' (PStr []) of
             PStr d \<Rightarrow> Inr (date_to < d)
           | _ \<Rightarrow> Inl TypeError)"

fun category_differs :: "entry \<Rightarrow> string option \<Rightarrow> bool" where
  "category_differs e None = False"
| "category_differs e (Some category) = (category \<noteq> [] \<and> dict_get e ''category'' \<noteq> PStr category)"

definition keep_entry ::
  "string option \<Rightarrow> string option \<Rightarrow> string option \<Rightarrow> entry \<Rightarrow> py_error + bool"
where
  "keep_entry date_from date_to category e =
     (case date_before e date_from of
        Inl err \<Rightarrow> Inl err
      | Inr True \<Rightarrow> Inr False
      | Inr False \<Rightarrow>
          (case date_after e date_to of
             Inl err \<Rightarrow> Inl err
           | Inr True \<Rightarrow> Inr False
           | Inr False \<Rightarrow> Inr (\<not> category_differs e category)))"

fun filter_loop ::
  "string option \<Rightarrow> string option \<Rightarrow> string option \<Rightarrow> entry list \<Rightarrow> py_error + entry list"
where
  "filter_loop date_from date_to category [] = Inr []"
| "filter_loop date_from date_to category (e # es) =
     (case keep_entry date_from date_to category e of
        Inl err \<Rightarrow> Inl err
      | Inr keep \<Rightarrow>
          (case filter_loop date_from date_to category es of
             Inl err \<Rightarrow> Inl err
           | Inr r \<Rightarrow> Inr (if keep then e # r else r)))"

text \<open>
  The two aggregation passes over the matched entries. The \<^verbatim>\<open>except (ValueError, TypeError)\<close> skips the record;
  any other exception leaves the handler. In the second loop the \<^verbatim>\<open>TypeError\<close> of a
  category that cannot be a key is caught in the same way.
\<close>

fun total_loop :: "entry list \<Rightarrow> real \<Rightarrow> py_error + real" where
  "total_loop [] tot = Inr tot"
| "total_loop (e # es) tot =
     (let amount_value = dict_get_default e ''amount'' (PInt 0)
      in if amount_value \<noteq> PNone \<and> amount_value \<noteq> PStr [] then
           (case py_float amount_value of
              Inr x \<Rightarrow> total_loop es (tot + x)
            | Inl ValueError \<Rightarrow> total_loop es tot
            | Inl TypeError \<Rightarrow> total_loop es tot
            | Inl err \<Rightarrow> Inl err)
         else total_loop es tot)"

fun categories_loop :: "entry list \<Rightarrow> (pyval \<times> real) list \<Rightarrow> py_error + (pyval \<times> real) list" where
  "categories_loop [] cats = Inr cats"
| "categories_loop (e # es) cats =
     (let cat = dict_get_default e ''category'' (PStr uncategorized);
          amount_value = dict_get_default e ''amount'' (PInt 0)
      in if amount_value \<noteq> PNone \<and> amount_value \<noteq> PStr [] then
           (case py_float amount_value of
              Inr x \<Rightarrow>
                if hashable cat then categories_loop es (cat_set cats cat (cat_get cats cat 0 + x))
                else categories_loop es cats
            | Inl ValueError \<Rightarrow> categories_loop es cats
            | Inl TypeError \<Rightarrow> categories_loop es cats
            | Inl err \<Rightarrow> Inl err)
         else categories_loop es cats)"

fun str_keys :: "(pyval \<times> 'v) list \<Rightarrow> (string \<times> 'v) list option" where
  "str_keys [] = Some []"
| "str_keys ((PStr k, v) # cs) = (case str_keys cs of None \<Rightarrow> None | Some r \<Rightarrow> Some ((k, v) # r))"
| "str_keys ((_, v) # cs) = None"

definition filter_entries ::
  "entry list \<Rightarrow> string option \<Rightarrow> string option \<Rightarrow> string option \<Rightarrow> py_error + real EntrySummary"
where
  "filter_entries data date_from date_to category =
     (if bad_format date_from then Inl (HTTPException 400 Date_from_format)
      else if bad_format date_to then Inl (HTTPException 400 Date_to_format)
      else case filter_loop date_from date_to category data of
             Inl err \<Rightarrow> Inl err
           | Inr filtered_entries \<Rightarrow>
               (case total_loop filtered_entries 0 of
                  Inl err \<Rightarrow> Inl err
                | Inr total_amount' \<Rightarrow>
                    (case categories_loop filtered_entries [] of
                       Inl err \<Rightarrow> Inl err
                     | Inr cats \<Rightarrow>
                         (case str_keys cats of
                            None \<Rightarrow> Inl ValidationError
                          | Some cats' \<Rightarrow>
                              Inr \<lparr>total = length filtered_entries,
                                   total_amount = py_str_float total_amount',
                                   categories = cats',
                                   entries = filtered_entries\<rparr>))))"

subsection \<open>The handler over any implementation of the library\<close>

text \<open>
  What \<^verbatim>\<open>float\<close>, the addition of floats, \<^verbatim>\<open>str\<close> and the digit class \<^verbatim>\<open>\d\<close> of
  the pattern do is fixed by Python and its library, not by this repository. The handler
  is therefore also given over any implementation of them: a statement proved for every
  \<open>library\<close> holds for the doubles of Python with their rounding, infinities and NaN,
  and for every Unicode digit. \<open>lib_float\<close> is \<^verbatim>\<open>float(v)\<close> with the exceptions it
  raises, \<open>lib_zero\<close> is \<^verbatim>\<open>0.0\<close>, \<open>lib_add\<close> is \<^verbatim>\<open>+\<close> on floats, \<open>lib_str\<close> is
  \<^verbatim>\<open>str\<close> of a float, and \<open>lib_digit\<close> tells whether one code point matches \<^verbatim>\<open>\d\<close>.
\<close>

record 'f library =
  lib_float :: "pyval \<Rightarrow> py_error + 'f"
  lib_zero :: 'f
  lib_add :: "'f \<Rightarrow> 'f \<Rightarrow> 'f"
  lib_str :: "'f \<Rightarrow> string"
  lib_digit :: "string \<Rightarrow> bool"

text \<open>
  The pattern of \<^verbatim>\<open>_is_valid_date_format\<close> on the code points of the string: ten code
  points, hyphens at the fifth and the eighth, digits elsewhere, and possibly one final
  newline, before which \<^verbatim>\<open>$\<close> matches as well.
\<close>

definition date_shape_with :: "(string \<Rightarrow> bool) \<Rightarrow> string list \<Rightarrow> bool" where
  "date_shape_with digit cps =
     (length cps = 10 \<and> list_all digit (take 4 cps) \<and> cps ! 4 = ''-''
      \<and> list_all digit (take 2 (drop 5 cps)) \<and> cps ! 7 = ''-''
      \<and> list_all digit (drop 8 cps))"

definition is_valid_date_format_with :: "'f library \<Rightarrow> string \<Rightarrow> bool" where
  "is_valid_date_format_with L date_str =
     (date_shape_with (lib_digit L) (code_points date_str)
      \<or> (length (code_points date_str) = 11 \<and> last (code_points date_str) = [CHR 0x0A]
          \<and> date_shape_with (lib_digit L) (butlast (code_points date_str))))"

fun bad_format_with :: "'f library \<Rightarrow> string option \<Rightarrow> bool" where
  "bad_format_with L None = False"
| "bad_format_with L (Some p) = (p \<noteq> [] \<and> \<not> is_valid_date_format_with L p)"

text \<open>The two aggregation passes and the handler, as above, over the library.\<close>

fun total_loop_with :: "'f library \<Rightarrow> entry list \<Rightarrow> 'f \<Rightarrow> py_error + 'f" where
  "total_loop_with L [] tot = Inr tot"
| "total_loop_with L (e # es) tot =
     (let amount_value = dict_get_default e ''amount'' (PInt 0)
      in if amount_value \<noteq> PNone \<and> amount_value \<noteq> PStr [] then
           (case lib_float L amount_value of
              Inr x \<Rightarrow> total_loop_with L es (lib_add L tot x)
            | Inl ValueError \<Rightarrow> total_loop_with L es tot
            | Inl TypeError \<Rightarrow> total_loop_with L es tot
            | Inl err \<Rightarrow> Inl err)
         else total_loop_with L es tot)"

fun categories_loop_with ::
  "'f library \<Rightarrow> entry list \<Rightarrow> (pyval \<times> 'f) list \<Rightarrow> py_error + (pyval \<times> 'f) list"
where
  "categories_loop_with L [] cats = Inr cats"
| "categories_loop_with L (e # es) cats =
     (let cat = dict_get_default e ''category'' (PStr uncategorized);
          amount_value = dict_get_default e ''amount'' (PInt 0)
      in if amount_value \<noteq> PNone \<and> amount_value \<noteq> PStr [] then
           (case lib_float L amount_value of
              Inr x \<Rightarrow>
                if hashable cat
                then categories_loop_with L es
                       (cat_set cats cat (lib_add L (cat_get cats cat (lib_zero L)) x))
                else categories_loop_with L es cats
            | Inl ValueError \<Rightarrow> categories_loop_with L es cats
            | Inl TypeError \<Rightarrow> categories_loop_with L es cats
            | Inl err \<Rightarrow> Inl err)
         else categories_loop_with L es cats)"

definition filter_entries_with ::
  "'f library \<Rightarrow> entry list \<Rightarrow> string option \<Rightarrow> string option \<Rightarrow> string option
     \<Rightarrow> py_error + 'f EntrySummary"
where
  "filter_entries_with L data date_from date_to category =
     (if bad_format_with L date_from then Inl (HTTPException 400 Date_from_format)
      else if bad_format_with L date_to then Inl (HTTPException 400 Date_to_format)
      else case filter_loop date_from date_to category data of
             Inl err \<Rightarrow> Inl err
           | Inr filtered_entries \<Rightarrow>
               (case total_loop_with L filtered_entries (lib_zero L) of
                  Inl err \<Rightarrow> Inl err
                | Inr total_amount' \<Rightarrow>
                    (case categories_loop_with L filtered_entries [] of
                       Inl err \<Rightarrow> Inl err
                     | Inr cats \<Rightarrow>
                         (case str_keys cats of
                            None \<Rightarrow> Inl ValidationError
                          | Some cats' \<Rightarrow>
                              Inr \<lparr>total = length filtered_entries,
                                   total_amount = lib_str L total_amount',
                                   categories = cats',
                                   entries = filtered_entries\<rparr>))))"

text \<open>
  Decimal arithmetic with the ASCII digits is one library; the functions
  \<open>filter_entries\<close>, \<open>total_loop\<close> and \<open>categories_loop\<close> above are the handler at this
  library (\<open>filter_entries_decimal\<close> below).
\<close>

fun ascii_digit :: "string \<Rightarrow> bool" where
  "ascii_digit [c] = is_digit c"
| "ascii_digit cp = False"

definition decimal_library :: "real library" where
  "decimal_library =
     \<lparr>lib_float = py_float, lib_zero = 0, lib_add = (+), lib_str = py_str_float,
      lib_digit = ascii_digit\<rparr>"

section \<open>Monthly summary: \<^verbatim>\<open>GET /summary/{year_month}\<close>\<close>

text \<open>
  The monthly summary is given in decimal arithmetic only; it serves the scenarios on
  concrete stores.
\<close>

record category_row =
  category :: pyval
  amount :: string
  percentage :: string

record summary =
  year_month :: string
  total_entries :: nat
  summary_total_amount :: string
  summary_categories :: "category_row list"

text \<open>
  \<^verbatim>\<open>[e for e in DATA if e["date"].startswith(year_month)]\<close>: a record without a date
  raises \<^verbatim>\<open>KeyError\<close>, a date that is not a string has no \<^verbatim>\<open>startswith\<close>.
\<close>

fun monthly_of :: "entry list \<Rightarrow> string \<Rightarrow> py_error + entry list" where
  "monthly_of [] ym = Inr []"
| "monthly_of (e # es) ym =
     (case map_of e ''date'' of
        None \<Rightarrow> Inl KeyError
      | Some (PStr d) \<Rightarrow>
          (case monthly_of es ym of
             Inl err \<Rightarrow> Inl err
           | Inr r \<Rightarrow> Inr (if prefix ym d then e # r else r))
      | Some _ \<Rightarrow> Inl AttributeError)"

text \<open>\<^verbatim>\<open>float(e.get("amount", 0) or 0)\<close>: no exception is caught here.\<close>

definition amount_of :: "entry \<Rightarrow> py_error + real" where
  "amount_of e =
     (let v = dict_get_default e ''amount'' (PInt 0)
      in py_float (if truthy v then v else PInt 0))"

fun amounts_of :: "entry list \<Rightarrow> py_error + real list" where
  "amounts_of [] = Inr []"
| "amounts_of (e # es) =
     (case amount_of e of
        Inl err \<Rightarrow> Inl err
      | Inr x \<Rightarrow> (case amounts_of es of Inl err \<Rightarrow> Inl err | Inr xs \<Rightarrow> Inr (x # xs)))"

text \<open>\<^verbatim>\<open>sum\<close> starts from the integer \<^verbatim>\<open>0\<close>, which is its result on no element.\<close>

definition py_sum :: "real list \<Rightarrow> pyval" where
  "py_sum xs = (if xs = [] then PInt 0 else PFloat (foldl (+) 0 xs))"

fun py_str_number :: "pyval \<Rightarrow> string" where
  "py_str_number (PInt i) = py_str_int i"
| "py_str_number (PFloat r) = py_str_float r"
| "py_str_number v = []"

fun summary_loop :: "entry list \<Rightarrow> (pyval \<times> real) list \<Rightarrow> py_error + (pyval \<times> real) list" where
  "summary_loop [] cats = Inr cats"
| "summary_loop (e # es) cats =
     (case amount_of e of
        Inl err \<Rightarrow> Inl err
      | Inr amt \<Rightarrow>
          (case map_of e ''category'' of
             None \<Rightarrow> Inl KeyError
           | Some k \<Rightarrow>
               if hashable k then summary_loop es (cat_set cats k (cat_get cats k 0 + amt))
               else Inl TypeError))"

text \<open>
  \<^verbatim>\<open>sorted(categories.items(), key=lambda i: i[1], reverse=True)\<close> is stable: items
  with equal amounts keep their order.
\<close>

definition sorted_items :: "(pyval \<times> real) list \<Rightarrow> (pyval \<times> real) list" where
  "sorted_items cats = sort_key (\<lambda>i. - snd i) cats"

fun number_of :: "pyval \<Rightarrow> real" where
  "number_of (PFloat r) = r"
| "number_of (PInt i) = of_int i"
| "number_of v = 0"

definition percentage_of :: "pyval \<Rightarrow> real \<Rightarrow> real" where
  "percentage_of total_amount' v = py_round2 (v / number_of total_amount' * 100)"

definition row_of :: "pyval \<Rightarrow> pyval \<times> real \<Rightarrow> category_row" where
  "row_of total_amount' i =
     \<lparr>category = fst i,
      amount = py_str_float (snd i),
      percentage = (if truthy total_amount' then py_str_float (percentage_of total_amount' (snd i))
                    else ''0'')\<rparr>"

text \<open>
  The handler. The \<^verbatim>\<open>or\<close> of its first test looks at \<^verbatim>\<open>year_month[4]\<close> only when the
  length is 7.
\<close>

definition get_summary :: "entry list \<Rightarrow> string \<Rightarrow> py_error + summary" where
  "get_summary data ym =
     (if (if py_len ym \<noteq> 7 then True else code_points ym ! 4 \<noteq> ''-'')
      then Inl (HTTPException 400 Year_month_format)
      else case monthly_of data ym of
             Inl err \<Rightarrow> Inl err
           | Inr monthly \<Rightarrow>
               (case amounts_of monthly of
                  Inl err \<Rightarrow> Inl err
                | Inr xs \<Rightarrow>
                    (case summary_loop monthly [] of
                       Inl err \<Rightarrow> Inl err
                     | Inr cats \<Rightarrow>
                         Inr \<lparr>year_month = ym,
                              total_entries = length monthly,
                              summary_total_amount = py_str_number (py_sum xs),
                              summary_categories = map (row_of (py_sum xs)) (sorted_items cats)\<rparr>)))"

section \<open>Sample data: \<^verbatim>\<open>POST /sample\<close>\<close>

text \<open>The Japanese words of the sample entries, as UTF-8.\<close>

definition shokuhi :: string where
  "shokuhi = [CHR 0xE9, CHR 0xA3, CHR 0x9F, CHR 0xE8, CHR 0xB2, CHR 0xBB]"

definition kotsuhi :: string where
  "kotsuhi = [CHR 0xE4, CHR 0xBA, CHR 0xA4, CHR 0xE9, CHR 0x80, CHR 0x9A, CHR 0xE8, CHR 0xB2, CHR 0xBB]"

definition nichiyohin :: string where
  "nichiyohin = [CHR 0xE6, CHR 0x97, CHR 0xA5, CHR 0xE7, CHR 0x94, CHR 0xA8, CHR 0xE5, CHR 0x93, CHR 0x81]"

definition kosaihi :: string where
  "kosaihi = [CHR 0xE4, CHR 0xBA, CHR 0xA4, CHR 0xE9, CHR 0x9A, CHR 0x9B, CHR 0xE8, CHR 0xB2, CHR 0xBB]"

definition konetsuhi :: string where
  "konetsuhi = [CHR 0xE5, CHR 0x85, CHR 0x89, CHR 0xE7, CHR 0x86, CHR 0xB1, CHR 0xE8, CHR 0xB2, CHR 0xBB]"

definition tsushinhi :: string where
  "tsushinhi = [CHR 0xE9, CHR 0x80, CHR 0x9A, CHR 0xE4, CHR 0xBF, CHR 0xA1, CHR 0xE8, CHR 0xB2, CHR 0xBB]"

definition supermarket :: string where
  "supermarket =
     [CHR 0xE3, CHR 0x82, CHR 0xB9, CHR 0xE3, CHR 0x83, CHR 0xBC, CHR 0xE3, CHR 0x83, CHR 0x91,
      CHR 0xE3, CHR 0x83, CHR 0xBC, CHR 0xE3, CHR 0x83, CHR 0x9E, CHR 0xE3, CHR 0x83, CHR 0xBC,
      CHR 0xE3, CHR 0x82, CHR 0xB1, CHR 0xE3, CHR 0x83, CHR 0x83, CHR 0xE3, CHR 0x83, CHR 0x88]"

definition densha :: string where
  "densha = [CHR 0xE9, CHR 0x9B, CHR 0xBB, CHR 0xE8, CHR 0xBB, CHR 0x8A]"

definition restaurant :: string where
  "restaurant =
     [CHR 0xE3, CHR 0x83, CHR 0xAC, CHR 0xE3, CHR 0x82, CHR 0xB9, CHR 0xE3, CHR 0x83, CHR 0x88,
      CHR 0xE3, CHR 0x83, CHR 0xA9, CHR 0xE3, CHR 0x83, CHR 0xB3]"

definition drugstore :: string where
  "drugstore =
     [CHR 0xE3, CHR 0x83, CHR 0x89, CHR 0xE3, CHR 0x83, CHR 0xA9, CHR 0xE3, CHR 0x83, CHR 0x83,
      CHR 0xE3, CHR 0x82, CHR 0xB0, CHR 0xE3, CHR 0x82, CHR 0xB9, CHR 0xE3, CHR 0x83, CHR 0x88,
      CHR 0xE3, CHR 0x82, CHR 0xA2]"

definition nomikai :: string where
  "nomikai = [CHR 0xE9, CHR 0xA3, CHR 0xB2, CHR 0xE3, CHR 0x81, CHR 0xBF, CHR 0xE4, CHR 0xBC, CHR 0x9A]"

definition konbini :: string where
  "konbini =
     [CHR 0xE3, CHR 0x82, CHR 0xB3, CHR 0xE3, CHR 0x83, CHR 0xB3, CHR 0xE3, CHR 0x83, CHR 0x93,
      CHR 0xE3, CHR 0x83, CHR 0x8B]"

definition denkidai :: string where
  "denkidai = [CHR 0xE9, CHR 0x9B, CHR 0xBB, CHR 0xE6, CHR 0xB0, CHR 0x97, CHR 0xE4, CHR 0xBB, CHR 0xA3]"

definition keitai_denwa :: string where
  "keitai_denwa =
     [CHR 0xE6, CHR 0x90, CHR 0xBA, CHR 0xE5, CHR 0xB8, CHR 0xAF, CHR 0xE9, CHR 0x9B, CHR 0xBB,
      CHR 0xE8, CHR 0xA9, CHR 0xB1]"

definition examples :: "(string \<times> string \<times> string \<times> string) list" where
  "examples =
     [(''2023-01-15'', shokuhi, supermarket, ''3500''),
      (''2023-01-20'', kotsuhi, densha, ''1200''),
      (''2023-01-25'', shokuhi, restaurant, ''4800''),
      (''2023-02-05'', nichiyohin, drugstore, ''2600''),
      (''2023-02-10'', kosaihi, nomikai, ''5000''),
      (''2023-02-15'', shokuhi, konbini, ''800''),
      (''2023-03-01'', konetsuhi, denkidai, ''7200''),
      (''2023-03-10'', tsushinhi, keitai_denwa, ''8000''),
      (''2023-03-15'', shokuhi, supermarket, ''4200'')]"

record seed_response =
  seed_status :: string
  added :: nat
  seed_total :: nat

fun seed_loop :: "(nat \<Rightarrow> string) \<Rightarrow> (string \<times> string \<times> string \<times> string) list \<Rightarrow> state \<Rightarrow> state" where
  "seed_loop uuid4 [] s = s"
| "seed_loop uuid4 ((d, c, desc, amt) # xs) s =
     seed_loop uuid4 xs
       (s\<lparr>DATA := DATA s @ [ [(''id'', PStr (uuid4 (drawn s))), (''date'', PStr d),
                               (''category'', PStr c), (''description'', PStr desc),
                               (''amount'', PStr amt)]],
          drawn := Suc (drawn s)\<rparr>)"

definition seed_sample :: "(nat \<Rightarrow> string) \<Rightarrow> state \<Rightarrow> seed_response \<times> state" where
  "seed_sample uuid4 s =
     (let s1 = seed_loop uuid4 examples s
      in (\<lparr>seed_status = ''success'', added = length examples, seed_total = length (DATA s1)\<rparr>, s1))"

section \<open>Auxiliary notions for the statements\<close>

text \<open>
  A record passes the check of \<^verbatim>\<open>create_entries\<close> when its date and its amount are
  truthy; \<open>prepare\<close> is the record as the loop stores it, and \<open>prepared\<close> a run of
  records stored from the \<open>n\<close>-th identifier on.
\<close>

definition valid_record :: "entry \<Rightarrow> bool" where
  "valid_record e = (truthy (dict_get e ''date'') \<and> truthy (dict_get e ''amount''))"

definition prepare :: "string \<Rightarrow> entry \<Rightarrow> entry" where
  "prepare u e =
     setdefault (setdefault (setdefault e ''id'' (PStr u)) ''category'' (PStr uncategorized))
       ''description'' (PStr [])"

fun prepared :: "(nat \<Rightarrow> string) \<Rightarrow> nat \<Rightarrow> entry list \<Rightarrow> entry list" where
  "prepared uuid4 n [] = []"
| "prepared uuid4 n (e # es) = prepare (uuid4 n) e # prepared uuid4 (Suc n) es"

text \<open>Concrete records, identifiers and stores for the examples.\<close>

definition rec_ok :: entry where
  "rec_ok = [(''date'', PStr ''2023-01-01''), (''amount'', PInt 10)]"

definition rec_zero :: entry where
  "rec_zero = [(''date'', PStr ''2023-01-02''), (''amount'', PInt 0)]"

definition rec_abc :: entry where
  "rec_abc = [(''date'', PStr ''2023-01-15''), (''category'', PStr ''food''), (''amount'', PStr ''abc'')]"

definition uuid0 :: "nat \<Rightarrow> string" where
  "uuid0 n = ''uuid-'' @ str_nat n"

definition empty_store :: state where
  "empty_store = \<lparr>DATA = [], drawn = 0\<rparr>"

definition full_store :: state where
  "full_store = \<lparr>DATA = replicate 10000 rec_ok, drawn = 0\<rparr>"

text \<open>A reader that yields the one row of an upload with a non-numeric amount.\<close>

definition csv_abc :: "string \<Rightarrow> py_error + entry list" where
  "csv_abc file = Inr [rec_abc]"

text \<open>The three sample entries of January 2023, as seeded into the empty store.\<close>

definition january :: "entry list" where
  "january =
     [ [(''id'', PStr (uuid0 0)), (''date'', PStr ''2023-01-15''), (''category'', PStr shokuhi),
       (''description'', PStr supermarket), (''amount'', PStr ''3500'')],
      [(''id'', PStr (uuid0 1)), (''date'', PStr ''2023-01-20''), (''category'', PStr kotsuhi),
       (''description'', PStr densha), (''amount'', PStr ''1200'')],
      [(''id'', PStr (uuid0 2)), (''date'', PStr ''2023-01-25''), (''category'', PStr shokuhi),
       (''description'', PStr restaurant), (''amount'', PStr ''4800'')]]"

text \<open>
  The membership condition of \<^verbatim>\<open>GET /entries\<close> in the words of the specification. The
  date of a record is its \<^verbatim>\<open>date\<close> field, the empty string when absent; a bound that is
  absent or empty is not provided. Strings are compared lexicographically.
\<close>

definition entry_date :: "entry \<Rightarrow> string" where
  "entry_date e = (case dict_get_default e ''date'' (PStr []) of PStr d \<Rightarrow> d | _ \<Rightarrow> [])"

fun from_holds :: "string option \<Rightarrow> entry \<Rightarrow> bool" where
  "from_holds None e = True"
| "from_holds (Some date_from) e = (date_from = [] \<or> date_from \<le> entry_date e)"

fun to_holds :: "string option \<Rightarrow> entry \<Rightarrow> bool" where
  "to_holds None e = True"
| "to_holds (Some date_to) e = (date_to = [] \<or> entry_date e \<le> date_to)"

fun category_holds :: "string option \<Rightarrow> entry \<Rightarrow> bool" where
  "category_holds None e = True"
| "category_holds (Some c) e = (c = [] \<or> dict_get e ''category'' = PStr c)"

definition satisfies :: "string option \<Rightarrow> string option \<Rightarrow> string option \<Rightarrow> entry \<Rightarrow> bool" where
  "satisfies date_from date_to c e = (from_holds date_from e \<and> to_holds date_to e \<and> category_holds c e)"

text \<open>A store with one unparseable amount, for the examples.\<close>

definition rec_jan_abc :: entry where
  "rec_jan_abc = [(''date'', PStr ''2023-01-15''), (''category'', PStr ''food''), (''amount'', PStr ''abc'')]"

definition rec_jan_ten :: entry where
  "rec_jan_ten = [(''date'', PStr ''2023-01-20''), (''category'', PStr ''food''), (''amount'', PStr ''10'')]"

definition rec_feb :: entry where
  "rec_feb = [(''date'', PStr ''2023-02-01''), (''category'', PStr ''transport''), (''amount'', PFloat 2.5)]"

definition rec_mar :: entry where
  "rec_mar = [(''date'', PStr ''2023-03-01''), (''category'', PStr ''food''), (''amount'', PStr ''7'')]"

definition mixed_store :: "entry list" where
  "mixed_store = [rec_jan_abc, rec_jan_ten, rec_feb, rec_mar]"

text \<open>
  The amount and the category that the aggregation of \<^verbatim>\<open>GET /entries\<close> reads from a
  record. The amount parses when it is neither \<^verbatim>\<open>None\<close> nor the empty string, which the
  handler skips, and \<^verbatim>\<open>float\<close> accepts it; \<open>parsed_amounts\<close> are the floats of the records
  whose amount parses, in order, and \<open>float_sum\<close> adds floats from \<^verbatim>\<open>0.0\<close> on, from
  left to right.
\<close>

definition amount_value :: "entry \<Rightarrow> pyval" where
  "amount_value e = dict_get_default e ''amount'' (PInt 0)"

definition category_key :: "entry \<Rightarrow> pyval" where
  "category_key e = dict_get_default e ''category'' (PStr uncategorized)"

definition amount_parses :: "'f library \<Rightarrow> entry \<Rightarrow> bool" where
  "amount_parses L e =
     (amount_value e \<noteq> PNone \<and> amount_value e \<noteq> PStr []
      \<and> (case lib_float L (amount_value e) of Inr x \<Rightarrow> True | Inl err \<Rightarrow> False))"

definition parsed_amount :: "'f library \<Rightarrow> entry \<Rightarrow> 'f list" where
  "parsed_amount L e =
     (if amount_value e \<noteq> PNone \<and> amount_value e \<noteq> PStr []
      then (case lib_float L (amount_value e) of Inr x \<Rightarrow> [x] | Inl err \<Rightarrow> [])
      else [])"

definition parsed_amounts :: "'f library \<Rightarrow> entry list \<Rightarrow> 'f list" where
  "parsed_amounts L es = concat (map (parsed_amount L) es)"

definition float_sum :: "'f library \<Rightarrow> 'f list \<Rightarrow> 'f" where
  "float_sum L xs = foldl (lib_add L) (lib_zero L) xs"

text \<open>
  Records on which \<^verbatim>\<open>GET /entries\<close> cannot raise: the date and the category are strings
  when present, and \<^verbatim>\<open>float\<close> accepts the amount or raises one of the two exceptions
  that the handler catches.
\<close>

definition is_str :: "pyval \<Rightarrow> bool" where
  "is_str v = (case v of PStr s \<Rightarrow> True | _ \<Rightarrow> False)"

definition amount_harmless :: "'f library \<Rightarrow> entry \<Rightarrow> bool" where
  "amount_harmless L e =
     (amount_value e = PNone \<or> amount_value e = PStr []
      \<or> (case lib_float L (amount_value e) of
            Inr x \<Rightarrow> True
          | Inl err \<Rightarrow> err = ValueError \<or> err = TypeError))"

definition typed_record :: "'f library \<Rightarrow> entry \<Rightarrow> bool" where
  "typed_record L e =
     (is_str (dict_get_default e ''date'' (PStr [])) \<and> is_str (category_key e)
      \<and> amount_harmless L e)"

text \<open>
  The value a dictionary holds for a key, by Python's equality of keys, and what a record
  adds to the category \<open>k\<close>.
\<close>

fun cat_find :: "(pyval \<times> 'v) list \<Rightarrow> pyval \<Rightarrow> 'v option" where
  "cat_find [] k = None"
| "cat_find ((k', v) # cs) k = (if py_eq k' k then Some v else cat_find cs k)"

definition contribution :: "'f library \<Rightarrow> entry \<Rightarrow> pyval \<Rightarrow> 'f list" where
  "contribution L e k = (if category_key e = k then parsed_amount L e else [])"

section \<open>Batch creation: validation, partial appends and the bound\<close>

lemma dict_get_setdefault_other:
  "k \<noteq> k' \<Longrightarrow> dict_get (setdefault e k v) k' = dict_get e k'"
  by (auto simp: dict_get_def setdefault_def map_add_def split: option.splits)

lemma length_prepared [simp]: "length (prepared uuid4 n es) = length es"
  by (induction es arbitrary: n) simp_all

lemma takeWhile_shorter: "\<not> list_all P xs \<Longrightarrow> length (takeWhile P xs) < length xs"
  by (induction xs) auto

text \<open>
  The loop in closed form: it stores the records up to the first one that fails the
  check, and raises there.
\<close>

lemma create_loop_eq:
  "create_loop uuid4 es acc s =
     (if list_all valid_record es
      then (Inr (acc @ prepared uuid4 (drawn s) es),
            s\<lparr>DATA := DATA s @ prepared uuid4 (drawn s) es, drawn := drawn s + length es\<rparr>)
      else (Inl (HTTPException 400 Required_date_amount),
            s\<lparr>DATA := DATA s @ prepared uuid4 (drawn s) (takeWhile valid_record es),
              drawn := Suc (drawn s + length (takeWhile valid_record es))\<rparr>))"
proof (induction es arbitrary: acc s)
  case Nil
  show ?case by simp
next
  case (Cons e es)
  have v: "valid_record e =
     (truthy (dict_get (setdefault e ''id'' (PStr (uuid4 (drawn s)))) ''date'')
      \<and> truthy (dict_get (setdefault e ''id'' (PStr (uuid4 (drawn s)))) ''amount''))"
    by (simp add: valid_record_def dict_get_setdefault_other)
  show ?case
  proof (cases "valid_record e")
    case False
    with v show ?thesis by (auto simp: Let_def)
  next
    case True
    with v show ?thesis
      by (simp add: Let_def Cons.IH prepare_def)
  qed
qed

lemma create_entries_eq:
  "create_entries uuid4 es s =
     (if list_all valid_record es
      then (Inr \<lparr>status = ''success'', created = length es,
                 created_entries = prepared uuid4 (drawn s) es\<rparr>,
            s\<lparr>DATA := trim (DATA s @ prepared uuid4 (drawn s) es), drawn := drawn s + length es\<rparr>)
      else (Inl (HTTPException 400 Required_date_amount),
            s\<lparr>DATA := DATA s @ prepared uuid4 (drawn s) (takeWhile valid_record es),
              drawn := Suc (drawn s + length (takeWhile valid_record es))\<rparr>))"
  by (simp add: create_entries_def create_loop_eq)

lemma length_trim: "length (trim d) = min 10000 (length d)"
  by (simp add: trim_def)

lemma trim_drop: "trim d = drop (length d - 10000) d"
  by (simp add: trim_def)

lemma trim_split: "d = take (length d - 10000) d @ trim d"
  by (simp add: trim_drop)

lemma valid_rec_ok: "valid_record rec_ok"
  by (simp add: valid_record_def rec_ok_def dict_get_def)

lemma invalid_rec_zero: "\<not> valid_record rec_zero"
  by (simp add: valid_record_def rec_zero_def dict_get_def)

lemma valid_rec_abc: "valid_record rec_abc"
  by (simp add: valid_record_def rec_abc_def dict_get_def)

text \<open>
  Claim C1, as amended. After a batch create that returns success the store holds at most
  10,000 entries: the batch is appended in order, and when that exceeds the bound exactly
  the oldest excess entries are dropped and the newest 10,000 are kept. (A create that
  is rejected part-way does not reach the trim, see the counterexample below.)
\<close>

theorem create_success_overflow:
  "create_entries uuid4 es s = (Inr r, s') \<Longrightarrow>
     length (DATA s') \<le> 10000
     \<and> length (DATA s') = min 10000 (length (DATA s) + length es)
     \<and> DATA s' = drop (length (DATA s) + length es - 10000) (DATA s @ created_entries r)
     \<and> DATA s @ created_entries r
          = take (length (DATA s) + length es - 10000) (DATA s @ created_entries r) @ DATA s'"
proof -
  assume a: "create_entries uuid4 es s = (Inr r, s')"
  define d where "d = DATA s @ prepared uuid4 (drawn s) es"
  from a have ok: "list_all valid_record es"
    by (simp add: create_entries_eq split: if_splits)
  with a have r: "created_entries r = prepared uuid4 (drawn s) es" and s': "DATA s' = trim d"
    by (auto simp: create_entries_eq d_def)
  have len: "length d = length (DATA s) + length es"
    by (simp add: d_def)
  have "length (trim d) \<le> 10000" "length (trim d) = min 10000 (length d)"
    by (simp_all add: length_trim)
  moreover have "trim d = drop (length d - 10000) d"
    by (rule trim_drop)
  moreover have "d = take (length d - 10000) d @ trim d"
    by (rule trim_split)
  ultimately show ?thesis
    unfolding r s' len [symmetric] d_def [symmetric] by simp
qed

theorem create_success_overflow_witness:
  "length (DATA (snd (create_entries uuid0 [rec_ok] full_store))) = 10000
   \<and> DATA (snd (create_entries uuid0 [rec_ok] full_store))
       = replicate 9999 rec_ok @ [prepare (uuid0 0) rec_ok]"
proof -
  have e: "create_entries uuid0 [rec_ok] full_store
     = (Inr \<lparr>status = ''success'', created = 1, created_entries = [prepare (uuid0 0) rec_ok]\<rparr>,
        full_store\<lparr>DATA := trim (replicate 10000 rec_ok @ [prepare (uuid0 0) rec_ok]), drawn := 1\<rparr>)"
    by (simp add: create_entries_eq valid_rec_ok full_store_def)
  have ds: "DATA full_store = replicate 10000 rec_ok"
    by (simp add: full_store_def)
  from create_success_overflow [OF e] show ?thesis
    by (simp add: e ds)
qed

text \<open>
  Claim C1 as stated fails: on a store of 10,000 entries, the batch of a valid record
  followed by a record with amount 0 is rejected with status 400, and the store is left
  with 10,001 entries.
\<close>

theorem create_failure_overflow_counterexample:
  "fst (create_entries uuid0 [rec_ok, rec_zero] full_store) = Inl (HTTPException 400 Required_date_amount)
   \<and> \<not> length (DATA (snd (create_entries uuid0 [rec_ok, rec_zero] full_store))) \<le> 10000"
  by (simp add: create_entries_eq valid_rec_ok invalid_rec_zero full_store_def)

text \<open>
  Claim C4. A batch create fails with the 400 error for a missing required field if and
  only if some record of the batch has an absent or empty date or an absent or falsy
  amount (absent, \<^verbatim>\<open>None\<close>, empty and zero are the falsy values of Python); otherwise it
  succeeds. In particular a record with amount 0 is rejected.
\<close>

theorem create_required_fields:
  "(fst (create_entries uuid4 es s) = Inl (HTTPException 400 Required_date_amount)
      \<longleftrightarrow> (\<exists>e \<in> set es. \<not> truthy (dict_get e ''date'') \<or> \<not> truthy (dict_get e ''amount'')))
   \<and> ((\<exists>r. fst (create_entries uuid4 es s) = Inr r)
      \<longleftrightarrow> (\<forall>e \<in> set es. truthy (dict_get e ''date'') \<and> truthy (dict_get e ''amount'')))
   \<and> ((\<exists>e \<in> set es. dict_get e ''amount'' = PInt 0 \<or> dict_get e ''amount'' = PFloat 0)
      \<longrightarrow> fst (create_entries uuid4 es s) = Inl (HTTPException 400 Required_date_amount))"
  by (auto simp: create_entries_eq list_all_iff valid_record_def)

theorem create_required_fields_witness:
  "fst (create_entries uuid0 [rec_zero] empty_store) = Inl (HTTPException 400 Required_date_amount)
   \<and> fst (create_entries uuid0 [rec_ok] empty_store) \<noteq> Inl (HTTPException 400 Required_date_amount)"
  using create_required_fields [of uuid0 "[rec_zero]" empty_store]
        create_required_fields [of uuid0 "[rec_ok]" empty_store]
  by (simp add: rec_zero_def rec_ok_def dict_get_def)

text \<open>
  Claim C5 as stated fails: the batch of a valid record followed by a record with amount
  0 is rejected, but the valid record has been appended to the store.
\<close>

theorem create_not_atomic_counterexample:
  "fst (create_entries uuid0 [rec_ok, rec_zero] empty_store) = Inl (HTTPException 400 Required_date_amount)
   \<and> DATA (snd (create_entries uuid0 [rec_ok, rec_zero] empty_store)) \<noteq> DATA empty_store"
  by (simp add: create_entries_eq valid_rec_ok invalid_rec_zero empty_store_def)

text \<open>
  Claim C5, as amended. When a record of a create batch fails the required-field check,
  the request fails with the 400 error; the records before the first failing one stay
  appended to the store, with their defaults, and neither the failing record nor any
  record after it is appended.
\<close>

theorem create_failure_keeps_prefix:
  "fst (create_entries uuid4 es s) = Inl err \<Longrightarrow>
     err = HTTPException 400 Required_date_amount
     \<and> DATA (snd (create_entries uuid4 es s))
         = DATA s @ prepared uuid4 (drawn s) (takeWhile valid_record es)
     \<and> length (takeWhile valid_record es) < length es"
  by (auto simp: create_entries_eq takeWhile_shorter split: if_splits)

theorem create_failure_keeps_prefix_witness:
  "DATA (snd (create_entries uuid0 [rec_ok, rec_zero, rec_ok] empty_store)) = [prepare (uuid0 0) rec_ok]"
proof -
  have "fst (create_entries uuid0 [rec_ok, rec_zero, rec_ok] empty_store)
          = Inl (HTTPException 400 Required_date_amount)"
    by (simp add: create_entries_eq valid_rec_ok invalid_rec_zero)
  from create_failure_keeps_prefix [OF this] show ?thesis
    by (simp add: valid_rec_ok invalid_rec_zero empty_store_def)
qed

section \<open>Non-numeric amounts on the create path, and seeding\<close>


lemmas float_eval = float_of_str_def strip_def is_space_def to_lower_def parse_unsigned_def
  is_digit_def nat_of_digits_def double_limit_def

lemmas str_eval = py_str_float_def py_str_int_def str_nat.simps frac_digits.simps digit_char_def

lemma dict_get_prepare_amount: "dict_get (prepare u e) ''amount'' = dict_get e ''amount''"
  by (simp add: prepare_def dict_get_setdefault_other)

lemma amounts_prepared:
  "map (\<lambda>e. dict_get e ''amount'') (prepared uuid4 n es) = map (\<lambda>e. dict_get e ''amount'') es"
  by (induction es arbitrary: n) (simp_all add: dict_get_prepare_amount)

text \<open>
  Claim C8 as stated fails: a record whose amount is the text \<^verbatim>\<open>abc\<close>, which
  \<^verbatim>\<open>float\<close> rejects, is accepted by the create path and stored with that amount.
\<close>

theorem create_stores_non_numeric_counterexample:
  "py_float (dict_get rec_abc ''amount'') = Inl ValueError
   \<and> fst (create_entries uuid0 [rec_abc] empty_store)
       = Inr \<lparr>status = ''success'', created = 1, created_entries = [prepare (uuid0 0) rec_abc]\<rparr>
   \<and> DATA (snd (create_entries uuid0 [rec_abc] empty_store)) = [prepare (uuid0 0) rec_abc]
   \<and> dict_get (prepare (uuid0 0) rec_abc) ''amount'' = PStr ''abc''"
proof -
  have "py_float (dict_get rec_abc ''amount'') = Inl ValueError"
    by (simp add: rec_abc_def dict_get_def float_eval)
  moreover have "dict_get (prepare (uuid0 0) rec_abc) ''amount'' = PStr ''abc''"
    by (simp add: dict_get_prepare_amount) (simp add: rec_abc_def dict_get_def)
  ultimately show ?thesis
    by (simp add: create_entries_eq valid_rec_abc empty_store_def trim_def)
qed

text \<open>
  Claim C8, as amended. The create path, also for the rows of a CSV upload, checks only
  that date and amount are present and truthy: every batch of such records is accepted and
  stored with the amounts as given, numeric or not. (A record whose amount is absent or
  falsy is rejected, see C4.)
\<close>

theorem create_accepts_truthy_amounts:
  "\<forall>e \<in> set es. truthy (dict_get e ''date'') \<and> truthy (dict_get e ''amount'') \<Longrightarrow>
     fst (create_entries uuid4 es s)
       = Inr \<lparr>status = ''success'', created = length es,
              created_entries = prepared uuid4 (drawn s) es\<rparr>
     \<and> DATA (snd (create_entries uuid4 es s)) = trim (DATA s @ prepared uuid4 (drawn s) es)
     \<and> map (\<lambda>e. dict_get e ''amount'') (prepared uuid4 (drawn s) es)
         = map (\<lambda>e. dict_get e ''amount'') es
     \<and> (reader file = Inr es
          \<longrightarrow> create_entries_csv reader uuid4 file s = create_entries uuid4 es s)"
  by (simp add: create_entries_eq create_entries_csv_def list_all_iff valid_record_def amounts_prepared)

theorem create_accepts_truthy_amounts_witness:
  "DATA (snd (create_entries_csv csv_abc uuid0 ''date,category,amount'' empty_store))
     = [prepare (uuid0 0) rec_abc]
   \<and> dict_get (prepare (uuid0 0) rec_abc) ''amount'' = dict_get rec_abc ''amount''"
proof -
  have h: "\<forall>e \<in> set [rec_abc]. truthy (dict_get e ''date'') \<and> truthy (dict_get e ''amount'')"
    using valid_rec_abc by (simp add: valid_record_def)
  from create_accepts_truthy_amounts [OF h, of uuid0 empty_store csv_abc "''date,category,amount''"]
  show ?thesis
    by (simp add: csv_abc_def empty_store_def trim_def)
qed

lemma seed_loop_data:
  "length (DATA (seed_loop uuid4 xs s)) = length (DATA s) + length xs
   \<and> take (length (DATA s)) (DATA (seed_loop uuid4 xs s)) = DATA s"
proof (induction xs arbitrary: s)
  case Nil
  show ?case by simp
next
  case (Cons x xs)
  obtain d c desc amt where x: "x = (d, c, desc, amt)"
    by (cases x) auto
  let ?s1 = "s\<lparr>DATA := DATA s @ [ [(''id'', PStr (uuid4 (drawn s))), (''date'', PStr d),
                               (''category'', PStr c), (''description'', PStr desc),
                               (''amount'', PStr amt)]],
          drawn := Suc (drawn s)\<rparr>"
  from Cons.IH [of ?s1]
  have l: "length (DATA (seed_loop uuid4 xs ?s1)) = Suc (length (DATA s)) + length xs"
    and t: "take (Suc (length (DATA s))) (DATA (seed_loop uuid4 xs ?s1)) = DATA ?s1"
    by simp_all
  have "take (length (DATA s)) (DATA (seed_loop uuid4 xs ?s1))
          = take (length (DATA s)) (take (Suc (length (DATA s))) (DATA (seed_loop uuid4 xs ?s1)))"
    by (simp add: min_def)
  also have "\<dots> = DATA s"
    by (simp add: t)
  finally show ?case
    using l by (simp add: x)
qed

text \<open>
  Claim C10. \<^verbatim>\<open>POST /sample\<close> appends its nine sample entries and does not trim: the
  store grows by exactly nine and keeps all earlier entries, so from more than 9,991
  entries it ends above 10,000, while a successful batch create on the same store ends
  with at most 10,000.
\<close>

theorem seed_sample_no_trim:
  "length (DATA (snd (seed_sample uuid4 s))) = length (DATA s) + 9
   \<and> take (length (DATA s)) (DATA (snd (seed_sample uuid4 s))) = DATA s
   \<and> seed_total (fst (seed_sample uuid4 s)) = length (DATA s) + 9
   \<and> (9991 < length (DATA s) \<longrightarrow> 10000 < length (DATA (snd (seed_sample uuid4 s))))
   \<and> (list_all valid_record es \<longrightarrow> length (DATA (snd (create_entries uuid4 es s))) \<le> 10000)"
proof -
  have "length examples = 9"
    by (simp add: examples_def)
  then show ?thesis
    using seed_loop_data [of uuid4 examples s]
    by (simp add: seed_sample_def Let_def create_entries_eq length_trim)
qed

theorem seed_sample_no_trim_witness:
  "length (DATA (snd (seed_sample uuid0 full_store))) = 10009
   \<and> length (DATA (snd (create_entries uuid0 [rec_ok] full_store))) \<le> 10000"
  using seed_sample_no_trim [of uuid0 full_store "[rec_ok]"] valid_rec_ok
  by (simp add: full_store_def)


section \<open>The scenarios on concrete stores\<close>



lemmas ym_eval = py_len_def is_continuation_def

lemma stored_abc:
  "DATA (snd (create_entries uuid0 [rec_abc] empty_store)) = [prepare (uuid0 0) rec_abc]"
  by (simp add: create_entries_eq valid_rec_abc empty_store_def trim_def)

lemma prepare_abc:
  "prepare (uuid0 0) rec_abc
     = [(''date'', PStr ''2023-01-15''), (''category'', PStr ''food''), (''amount'', PStr ''abc''),
        (''id'', PStr ''uuid-0''), (''description'', PStr [])]"
  by (simp add: prepare_def rec_abc_def setdefault_def uuid0_def str_nat.simps digit_char_def)

text \<open>
  Claim C6 fails on the monthly summary. The record with amount \<^verbatim>\<open>abc\<close> is accepted by
  the create path; on the resulting store \<^verbatim>\<open>GET /summary/2023-01\<close> raises
  \<^verbatim>\<open>ValueError\<close>, which only the catch-all handler turns into a response with status
  500, while \<^verbatim>\<open>GET /entries\<close> skips the amount and lists the record.
\<close>

theorem summary_fails_on_unparseable_amount:
  "get_summary (DATA (snd (create_entries uuid0 [rec_abc] empty_store))) ''2023-01'' = Inl ValueError
   \<and> filter_entries (DATA (snd (create_entries uuid0 [rec_abc] empty_store))) None None None
       = Inr \<lparr>total = 1, total_amount = ''0.0'', categories = [],
              entries = [prepare (uuid0 0) rec_abc]\<rparr>"
proof -
  have g: "get_summary [prepare (uuid0 0) rec_abc] ''2023-01'' = Inl ValueError"
    by (simp add: get_summary_def ym_eval prepare_abc amount_of_def dict_get_default_def float_eval)
  have v: "dict_get_default (prepare (uuid0 0) rec_abc) ''amount'' (PInt 0) = PStr ''abc''"
    by (simp add: prepare_abc dict_get_default_def)
  have p: "float_of_str ''abc'' = Inl ValueError"
    by (simp add: float_eval)
  have f: "filter_entries [prepare (uuid0 0) rec_abc] None None None
       = Inr \<lparr>total = 1, total_amount = ''0.0'', categories = [],
              entries = [prepare (uuid0 0) rec_abc]\<rparr>"
    by (simp add: filter_entries_def keep_entry_def v p str_eval)
  show ?thesis
    by (simp only: stored_abc g f)
qed


lemmas sample_words = shokuhi_def kotsuhi_def nichiyohin_def kosaihi_def konetsuhi_def tsushinhi_def
  supermarket_def densha_def restaurant_def drugstore_def nomikai_def konbini_def denkidai_def
  keitai_denwa_def

lemma seeded_month:
  "monthly_of (DATA (snd (seed_sample uuid0 empty_store))) ''2023-01'' = Inr january"
  by (simp add: seed_sample_def examples_def empty_store_def january_def numeral_2_eq_2 [symmetric])

lemma january_amounts: "amounts_of january = Inr [3500, 1200, 4800]"
  by (simp add: january_def amount_of_def dict_get_default_def float_eval)

lemma january_categories:
  "summary_loop january [] = Inr [(PStr shokuhi, 8300), (PStr kotsuhi, 1200)]"
  by (simp add: january_def amount_of_def dict_get_default_def float_eval py_eq_def
        shokuhi_def kotsuhi_def)

lemma january_rows:
  "map (row_of (PFloat 9500)) (sorted_items [(PStr shokuhi, 8300), (PStr kotsuhi, 1200)])
     = [\<lparr>category = PStr shokuhi, amount = ''8300.0'', percentage = ''87.37''\<rparr>,
        \<lparr>category = PStr kotsuhi, amount = ''1200.0'', percentage = ''12.63''\<rparr>]"
  by (simp add: sorted_items_def sort_key_def row_of_def percentage_of_def py_round2_def Let_def
        str_eval)

lemma seeded_summary_eval:
  "get_summary (DATA (snd (seed_sample uuid0 empty_store))) ''2023-01''
     = Inr \<lparr>year_month = ''2023-01'', total_entries = 3, summary_total_amount = ''9500.0'',
            summary_categories =
              [\<lparr>category = PStr shokuhi, amount = ''8300.0'', percentage = ''87.37''\<rparr>,
               \<lparr>category = PStr kotsuhi, amount = ''1200.0'', percentage = ''12.63''\<rparr>]\<rparr>"
proof -
  have s: "py_sum [3500, 1200, 4800] = PFloat 9500"
    by (simp add: py_sum_def)
  have t: "py_str_float 9500 = ''9500.0''"
    by (simp add: str_eval)
  have l: "length january = 3"
    by (simp add: january_def)
  show ?thesis
    by (simp add: get_summary_def ym_eval seeded_month january_amounts january_categories s t l
          january_rows)
qed

text \<open>
  Claim C9, as amended. Seeding the empty store and asking for the summary of 2023-01
  yields three entries, the total amount \<^verbatim>\<open>9500.0\<close> and the two categories in descending
  order of amount.
\<close>

theorem seed_then_summary:
  "get_summary (DATA (snd (seed_sample uuid0 empty_store))) ''2023-01''
     = Inr \<lparr>year_month = ''2023-01'', total_entries = 3, summary_total_amount = ''9500.0'',
            summary_categories =
              [\<lparr>category = PStr shokuhi, amount = ''8300.0'', percentage = ''87.37''\<rparr>,
               \<lparr>category = PStr kotsuhi, amount = ''1200.0'', percentage = ''12.63''\<rparr>]\<rparr>"
  by (rule seeded_summary_eval)

text \<open>
  Claim C9 as stated fails: the request succeeds and its entry count is not 2, the sample
  set has three entries dated in January 2023.
\<close>

theorem seed_then_summary_count_counterexample:
  "\<not> isl (get_summary (DATA (snd (seed_sample uuid0 empty_store))) ''2023-01'')
   \<and> total_entries (projr (get_summary (DATA (snd (seed_sample uuid0 empty_store))) ''2023-01'')) \<noteq> 2"
proof -
  have s: "py_sum [3500, 1200, 4800] = PFloat 9500"
    by (simp add: py_sum_def)
  have l: "length january = 3"
    by (simp add: january_def)
  show ?thesis
    by (simp add: get_summary_def ym_eval seeded_month january_amounts january_categories s l)
qed

section \<open>The concrete handler of \<^verbatim>\<open>GET /entries\<close> is the handler at decimal arithmetic\<close>

lemma total_loop_decimal: "total_loop_with decimal_library es t = total_loop es t"
  by (induction es arbitrary: t)
     (auto simp: decimal_library_def Let_def split: sum.splits py_error.splits)

lemma categories_loop_decimal: "categories_loop_with decimal_library es cats = categories_loop es cats"
  by (induction es arbitrary: cats)
     (auto simp: decimal_library_def Let_def split: sum.splits py_error.splits)

lemma code_points_ascii:
  "list_all (\<lambda>c. \<not> is_continuation c) s \<Longrightarrow> code_points s = map (\<lambda>c. [c]) s"
proof (induction s)
  case Nil
  show ?case by simp
next
  case (Cons c cs)
  then show ?case by (cases cs) auto
qed

lemma code_points_single:
  "list_all (\<lambda>cp. length cp = 1) (code_points s) \<Longrightarrow> code_points s = map (\<lambda>c. [c]) s"
proof (induction s rule: code_points.induct)
  case 1
  show ?case by simp
next
  case (2 c cs)
  from "2.prems" have t: "takeWhile is_continuation cs = []"
    by simp
  then have d: "dropWhile is_continuation cs = cs"
    by (metis takeWhile_dropWhile_id append_Nil)
  with "2.prems" "2.IH" t show ?case
    by simp
qed


lemma shape_map_single: "date_shape_with ascii_digit (map (\<lambda>c. [c]) t) = date_shape t"
  by (auto simp: date_shape_with_def date_shape_def take_map drop_map list.pred_map comp_def)

lemma ascii_digit_single: "ascii_digit cp \<Longrightarrow> length cp = 1"
  by (cases cp rule: ascii_digit.cases) simp_all

lemma shape_singles:
  assumes "date_shape_with ascii_digit cps"
  shows "list_all (\<lambda>cp. length cp = 1) cps"
proof -
  from assms obtain a b c d e f g h i j where cps: "cps = [a, b, c, d, e, f, g, h, i, j]"
    by (auto simp: date_shape_with_def length_Suc_conv eval_nat_numeral)
  from assms show ?thesis
    unfolding cps by (auto simp: date_shape_with_def dest: ascii_digit_single)
qed

lemma shape_no_continuation: "date_shape t \<Longrightarrow> list_all (\<lambda>c. \<not> is_continuation c) t"
proof -
  assume a: "date_shape t"
  then obtain a b c d e f g h i j where t: "t = [a, b, c, d, e, f, g, h, i, j]"
    by (auto simp: date_shape_def length_Suc_conv eval_nat_numeral)
  have d: "is_digit x \<Longrightarrow> \<not> is_continuation x" for x
    by (auto simp: is_digit_def is_continuation_def less_eq_char_def)
  from a show ?thesis
    unfolding t by (auto simp: date_shape_def is_continuation_def dest: d)
qed


lemma last_map_eleven: "length s = 11 \<Longrightarrow> last (map f s) = f (last s)"
  by (cases s rule: rev_cases) auto

lemma valid_date_decimal: "is_valid_date_format_with decimal_library s = is_valid_date_format s"
proof
  assume v: "is_valid_date_format s"
  have nl: "\<not> is_continuation (CHR 0x0A)"
    by (simp add: is_continuation_def)
  from v have "list_all (\<lambda>c. \<not> is_continuation c) s"
  proof (unfold is_valid_date_format_def, elim disjE conjE)
    assume "date_shape s"
    then show ?thesis by (rule shape_no_continuation)
  next
    assume a: "length s = 11" "last s = CHR 0x0A" "date_shape (butlast s)"
    then have "s \<noteq> []" by auto
    then have "s = butlast s @ [last s]" by simp
    then have "list_all (\<lambda>c. \<not> is_continuation c) s
                 = list_all (\<lambda>c. \<not> is_continuation c) (butlast s @ [last s])"
      by simp
    with shape_no_continuation [OF a(3)] a(2) nl show ?thesis
      by simp
  qed
  then have cps: "code_points s = map (\<lambda>c. [c]) s"
    by (rule code_points_ascii)
  from v show "is_valid_date_format_with decimal_library s"
    by (auto simp: is_valid_date_format_with_def is_valid_date_format_def decimal_library_def cps
          shape_map_single map_butlast [symmetric] last_map_eleven)
next
  assume v: "is_valid_date_format_with decimal_library s"
  let ?cps = "code_points s"
  from v have "list_all (\<lambda>cp. length cp = 1) ?cps"
  proof (unfold is_valid_date_format_with_def, elim disjE conjE)
    assume "date_shape_with (lib_digit decimal_library) ?cps"
    then have "date_shape_with ascii_digit ?cps"
      by (simp add: decimal_library_def)
    then show ?thesis by (rule shape_singles)
  next
    assume a: "length ?cps = 11" "last ?cps = [CHR 0x0A]"
      "date_shape_with (lib_digit decimal_library) (butlast ?cps)"
    then have "?cps \<noteq> []" by auto
    then have "?cps = butlast ?cps @ [last ?cps]" by simp
    then have "list_all (\<lambda>cp. length cp = 1) ?cps
                 = list_all (\<lambda>cp. length cp = 1) (butlast ?cps @ [last ?cps])"
      by simp
    with shape_singles [of "butlast ?cps"] a(2,3) show ?thesis
      by (simp add: decimal_library_def)
  qed
  then have cps: "?cps = map (\<lambda>c. [c]) s"
    by (rule code_points_single)
  from v show "is_valid_date_format s"
    by (auto simp: is_valid_date_format_with_def is_valid_date_format_def decimal_library_def cps
          shape_map_single map_butlast [symmetric] last_map_eleven)
qed

lemma bad_format_decimal: "bad_format_with decimal_library p = bad_format p"
  by (cases p) (simp_all add: valid_date_decimal)

lemma filter_entries_decimal:
  "filter_entries_with decimal_library data df dt c = filter_entries data df dt c"
  by (auto simp: filter_entries_with_def filter_entries_def bad_format_decimal total_loop_decimal
        categories_loop_decimal decimal_library_def [THEN arg_cong, of lib_zero]
        decimal_library_def [THEN arg_cong, of lib_str]
        split: sum.splits option.splits)

section \<open>Filter and summarize: membership, order and sums\<close>

lemma date_before_holds: "date_before e df = Inr b \<Longrightarrow> b = (\<not> from_holds df e)"
  by (cases df) (auto simp: entry_date_def split: if_splits pyval.splits)

lemma date_after_holds: "date_after e dt = Inr b \<Longrightarrow> b = (\<not> to_holds dt e)"
  by (cases dt) (auto simp: entry_date_def split: if_splits pyval.splits)

lemma category_differs_holds: "category_differs e c = (\<not> category_holds c e)"
  by (cases c) auto

lemma keep_entry_satisfies: "keep_entry df dt c e = Inr k \<Longrightarrow> k = satisfies df dt c e"
  by (auto simp: keep_entry_def satisfies_def category_differs_holds
        dest: date_before_holds date_after_holds split: sum.splits bool.splits)

lemma filter_loop_filter:
  "filter_loop df dt c es = Inr r \<Longrightarrow> r = filter (satisfies df dt c) es"
proof (induction es arbitrary: r)
  case Nil
  then show ?case by simp
next
  case (Cons e es)
  then show ?case
    by (auto split: sum.splits dest: keep_entry_satisfies)
qed

lemma keep_entry_dated:
  "is_str (dict_get_default e ''date'' (PStr [])) \<Longrightarrow> \<exists>k. keep_entry df dt c e = Inr k"
  by (cases df; cases dt)
     (auto simp: keep_entry_def is_str_def split: pyval.splits bool.splits)

lemma filter_loop_dated:
  "list_all (\<lambda>e. is_str (dict_get_default e ''date'' (PStr []))) es \<Longrightarrow>
     filter_loop df dt c es = Inr (filter (satisfies df dt c) es)"
proof (induction es)
  case Nil
  show ?case by simp
next
  case (Cons e es)
  then obtain k where k: "keep_entry df dt c e = Inr k"
    using keep_entry_dated [of e df dt c] by auto
  from keep_entry_satisfies [OF k] k Cons show ?case
    by simp
qed

lemma filter_loop_sub:
  "filter_loop df dt c es = Inr r \<Longrightarrow> filter_loop df dt c (filter P es) = Inr (filter P r)"
proof (induction es arbitrary: r)
  case Nil
  then show ?case by simp
next
  case (Cons e es)
  then show ?case
    by (auto split: sum.splits if_splits)
qed

lemma filter_entries_with_parts:
  assumes "filter_entries_with L data df dt c = Inr r"
  shows "filter_loop df dt c data = Inr (entries r)"
    and "total r = length (entries r)"
    and "\<exists>t. total_loop_with L (entries r) (lib_zero L) = Inr t \<and> total_amount r = lib_str L t"
    and "\<exists>cats. categories_loop_with L (entries r) [] = Inr cats \<and> str_keys cats = Some (categories r)"
    and "\<not> bad_format_with L df" and "\<not> bad_format_with L dt"
  using assms
  by (auto simp: filter_entries_with_def split: if_splits sum.splits option.splits)

text \<open>One step of either aggregation pass, by what the record contributes.\<close>

lemma total_loop_with_step:
  "total_loop_with L (e # es) t = Inr t' \<Longrightarrow>
     total_loop_with L es (foldl (lib_add L) t (parsed_amount L e)) = Inr t' \<and> amount_harmless L e"
  by (auto simp: parsed_amount_def amount_harmless_def amount_value_def Let_def
        split: if_splits sum.splits py_error.splits)

lemma total_loop_with_sum:
  "total_loop_with L es t = Inr t' \<Longrightarrow> t' = foldl (lib_add L) t (parsed_amounts L es)"
proof (induction es arbitrary: t)
  case Nil
  then show ?case by (simp add: parsed_amounts_def)
next
  case (Cons e es)
  from total_loop_with_step [OF Cons.prems] Cons.IH show ?case
    by (simp add: parsed_amounts_def)
qed

lemma parsed_amount_unparsed: "\<not> amount_parses L e \<Longrightarrow> parsed_amount L e = []"
  by (auto simp: amount_parses_def parsed_amount_def split: sum.splits)

lemma total_loop_with_skip:
  "amount_harmless L e \<Longrightarrow> \<not> amount_parses L e \<Longrightarrow>
     total_loop_with L (e # es) t = total_loop_with L es t"
  by (auto simp: amount_harmless_def amount_parses_def amount_value_def Let_def
        split: sum.splits py_error.splits)

lemma total_loop_with_parses:
  "total_loop_with L es t = Inr t' \<Longrightarrow> total_loop_with L (filter (amount_parses L) es) t = Inr t'"
proof (induction es arbitrary: t)
  case Nil
  then show ?case by simp
next
  case (Cons e es)
  note step = total_loop_with_step [OF Cons.prems]
  show ?case
  proof (cases "amount_parses L e")
    case False
    with step Cons.IH show ?thesis
      by (simp add: parsed_amount_unparsed)
  next
    case True
    then obtain x where x: "lib_float L (amount_value e) = Inr x" "amount_value e \<noteq> PNone"
        "amount_value e \<noteq> PStr []"
      by (auto simp: amount_parses_def split: sum.splits)
    then have "parsed_amount L e = [x]"
      by (simp add: parsed_amount_def)
    with step Cons.IH
    have "total_loop_with L (filter (amount_parses L) es) (lib_add L t x) = Inr t'"
      by simp
    with True x [unfolded amount_value_def] show ?thesis
      by (simp add: Let_def)
  qed
qed


lemma py_eq_str: "py_eq k' (PStr k) = (k' = PStr k)"
  by (cases k') (simp_all add: py_eq_def)

lemma cat_get_find: "cat_get cats k d = (case cat_find cats k of None \<Rightarrow> d | Some v \<Rightarrow> v)"
  by (induction cats) auto

lemma cat_find_set_same: "cat_find (cat_set cats (PStr k) v) (PStr k) = Some v"
  by (induction cats) (auto simp: py_eq_str)

lemma cat_find_set_other:
  "c \<noteq> PStr k \<Longrightarrow> cat_find (cat_set cats c v) (PStr k) = cat_find cats (PStr k)"
proof (induction cats)
  case Nil
  then show ?case by (simp add: py_eq_str)
next
  case (Cons i cats)
  obtain k' v' where i: "i = (k', v')" by (cases i)
  from Cons show ?case
    by (auto simp: i py_eq_str) (simp add: py_eq_def split: option.splits)
qed


lemma categories_loop_with_step:
  assumes "categories_loop_with L (e # es) cats = Inr cats'"
  shows "\<exists>cats1. categories_loop_with L es cats1 = Inr cats'
           \<and> (\<not> amount_parses L e \<longrightarrow> cats1 = cats)
           \<and> cat_find cats1 (PStr k)
               = (if contribution L e (PStr k) = [] then cat_find cats (PStr k)
                  else Some (foldl (lib_add L)
                               (case cat_find cats (PStr k) of None \<Rightarrow> lib_zero L | Some v \<Rightarrow> v)
                               (contribution L e (PStr k))))"
proof (cases "amount_parses L e")
  case False
  with assms have "categories_loop_with L es cats = Inr cats'"
    by (auto simp: amount_parses_def amount_value_def Let_def
          split: if_splits sum.splits py_error.splits)
  with False show ?thesis
    by (auto simp: contribution_def parsed_amount_unparsed)
next
  case True
  then obtain x where x: "lib_float L (amount_value e) = Inr x" "amount_value e \<noteq> PNone"
      "amount_value e \<noteq> PStr []"
    by (auto simp: amount_parses_def split: sum.splits)
  then have pa: "parsed_amount L e = [x]"
    by (simp add: parsed_amount_def)
  show ?thesis
  proof (cases "hashable (category_key e)")
    case False
    then have "category_key e \<noteq> PStr k"
      by auto
    moreover from False assms x [unfolded amount_value_def]
    have "categories_loop_with L es cats = Inr cats'"
      by (simp add: category_key_def Let_def)
    ultimately show ?thesis
      using True by (auto simp: contribution_def)
  next
    case h: True
    let ?c = "category_key e"
    let ?cats1 = "cat_set cats ?c (lib_add L (cat_get cats ?c (lib_zero L)) x)"
    from h assms x [unfolded amount_value_def]
    have l: "categories_loop_with L es ?cats1 = Inr cats'"
      by (simp add: category_key_def Let_def)
    have "cat_find ?cats1 (PStr k)
               = (if contribution L e (PStr k) = [] then cat_find cats (PStr k)
                  else Some (foldl (lib_add L)
                               (case cat_find cats (PStr k) of None \<Rightarrow> lib_zero L | Some v \<Rightarrow> v)
                               (contribution L e (PStr k))))"
    proof (cases "?c = PStr k")
      case True
      then show ?thesis
        by (simp add: contribution_def pa cat_find_set_same cat_get_find)
    next
      case False
      then show ?thesis
        by (simp add: contribution_def cat_find_set_other)
    qed
    with l True show ?thesis
      by blast
  qed
qed

lemma categories_loop_with_find:
  "categories_loop_with L es cats = Inr cats' \<Longrightarrow>
     cat_find cats' (PStr k)
       = (if concat (map (\<lambda>e. contribution L e (PStr k)) es) = [] then cat_find cats (PStr k)
          else Some (foldl (lib_add L)
                       (case cat_find cats (PStr k) of None \<Rightarrow> lib_zero L | Some v \<Rightarrow> v)
                       (concat (map (\<lambda>e. contribution L e (PStr k)) es))))"
proof (induction es arbitrary: cats)
  case Nil
  then show ?case by simp
next
  case (Cons e es)
  from categories_loop_with_step [OF Cons.prems, of k] obtain cats1 where
    l: "categories_loop_with L es cats1 = Inr cats'"
    and f: "cat_find cats1 (PStr k)
               = (if contribution L e (PStr k) = [] then cat_find cats (PStr k)
                  else Some (foldl (lib_add L)
                               (case cat_find cats (PStr k) of None \<Rightarrow> lib_zero L | Some v \<Rightarrow> v)
                               (contribution L e (PStr k))))"
    by blast
  define c where "c = contribution L e (PStr k)"
  define xs where "xs = concat (map (\<lambda>e. contribution L e (PStr k)) es)"
  define base where "base = (case cat_find cats (PStr k) of None \<Rightarrow> lib_zero L | Some v \<Rightarrow> v)"
  have f': "cat_find cats1 (PStr k) = (if c = [] then cat_find cats (PStr k)
              else Some (foldl (lib_add L) base c))"
    using f by (simp add: c_def base_def)
  have ih: "cat_find cats' (PStr k)
       = (if xs = [] then cat_find cats1 (PStr k)
          else Some (foldl (lib_add L)
                       (case cat_find cats1 (PStr k) of None \<Rightarrow> lib_zero L | Some v \<Rightarrow> v) xs))"
    using Cons.IH [OF l] by (simp add: xs_def)
  have "cat_find cats' (PStr k)
       = (if c @ xs = [] then cat_find cats (PStr k) else Some (foldl (lib_add L) base (c @ xs)))"
  proof (cases "c = []")
    case True
    with f' ih show ?thesis by (simp add: base_def)
  next
    case False
    with f' ih show ?thesis by (cases "xs = []") simp_all
  qed
  then show ?case
    by (simp add: c_def xs_def base_def)
qed

lemma categories_loop_with_parses:
  "categories_loop_with L es cats = Inr cats' \<Longrightarrow>
     categories_loop_with L (filter (amount_parses L) es) cats = Inr cats'"
proof (induction es arbitrary: cats)
  case Nil
  then show ?case by simp
next
  case (Cons e es)
  from categories_loop_with_step [OF Cons.prems, of undefined] obtain cats1 where
    l: "categories_loop_with L es cats1 = Inr cats'"
    and u: "\<not> amount_parses L e \<longrightarrow> cats1 = cats"
    by blast
  show ?case
  proof (cases "amount_parses L e")
    case False
    with u l Cons.IH show ?thesis
      by simp
  next
    case True
    then obtain x where x: "lib_float L (amount_value e) = Inr x" "amount_value e \<noteq> PNone"
        "amount_value e \<noteq> PStr []"
      by (auto simp: amount_parses_def split: sum.splits)
    let ?c = "dict_get_default e ''category'' (PStr uncategorized)"
    let ?next = "if hashable ?c
                 then cat_set cats ?c (lib_add L (cat_get cats ?c (lib_zero L)) x)
                 else cats"
    from Cons.prems x [unfolded amount_value_def]
    have "categories_loop_with L es ?next = Inr cats'"
      by (simp add: Let_def split: if_splits)
    from Cons.IH [OF this] True x [unfolded amount_value_def] show ?thesis
      by (auto simp: Let_def split: if_splits)
  qed
qed

lemma str_keys_find: "str_keys cats = Some cs \<Longrightarrow> map_of cs k = cat_find cats (PStr k)"
proof (induction cats arbitrary: cs)
  case Nil
  then show ?case by simp
next
  case (Cons i cats)
  obtain k' v where i: "i = (k', v)" by (cases i)
  from Cons.prems obtain a r where k': "k' = PStr a" and r: "str_keys cats = Some r"
    and cs: "cs = (a, v) # r"
    unfolding i by (cases k') (auto split: option.splits)
  from Cons.IH [OF r] show ?case
    by (simp add: i k' cs py_eq_str)
qed

lemma contributions_parsed:
  "concat (map (\<lambda>e. contribution L e k) es) = parsed_amounts L (filter (\<lambda>e. category_key e = k) es)"
  by (induction es) (simp_all add: contribution_def parsed_amounts_def)

lemma total_loop_with_harmless:
  "list_all (amount_harmless L) es \<Longrightarrow> \<exists>t'. total_loop_with L es t = Inr t'"
proof (induction es arbitrary: t)
  case Nil
  show ?case by simp
next
  case (Cons e es)
  then have ih: "\<exists>t'. total_loop_with L es u = Inr t'" for u
    by simp
  from Cons.prems have "amount_harmless L e"
    by simp
  then show ?case
    using ih
    by (auto simp: amount_harmless_def amount_value_def Let_def split: sum.splits py_error.splits)
qed

lemma str_keys_all: "list_all (\<lambda>i. is_str (fst i)) cats \<Longrightarrow> \<exists>r. str_keys cats = Some r"
proof (induction cats)
  case Nil
  show ?case by simp
next
  case (Cons i cats)
  then obtain k v r where "i = (PStr k, v)" "str_keys cats = Some r"
    by (cases i) (auto simp: is_str_def split: pyval.splits)
  then show ?case by simp
qed

lemma cat_set_keys:
  "list_all (\<lambda>i. is_str (fst i)) cats \<Longrightarrow> is_str k \<Longrightarrow> list_all (\<lambda>i. is_str (fst i)) (cat_set cats k v)"
  by (induction cats) auto

lemma categories_loop_with_typed:
  "list_all (typed_record L) es \<Longrightarrow> list_all (\<lambda>i. is_str (fst i)) cats \<Longrightarrow>
     \<exists>cats'. categories_loop_with L es cats = Inr cats' \<and> list_all (\<lambda>i. is_str (fst i)) cats'"
proof (induction es arbitrary: cats)
  case Nil
  then show ?case by simp
next
  case (Cons e es)
  then have ih: "list_all (\<lambda>i. is_str (fst i)) u \<Longrightarrow>
      \<exists>cats'. categories_loop_with L es u = Inr cats' \<and> list_all (\<lambda>i. is_str (fst i)) cats'" for u
    by simp
  from Cons.prems have h: "amount_harmless L e"
    and c: "is_str (dict_get_default e ''category'' (PStr uncategorized))"
    by (simp_all add: typed_record_def category_key_def)
  note a = ih [OF Cons.prems(2)]
  have b: "\<exists>cats'. categories_loop_with L es
             (cat_set cats (dict_get_default e ''category'' (PStr uncategorized)) v) = Inr cats'
             \<and> list_all (\<lambda>i. is_str (fst i)) cats'" for v
    by (rule ih [OF cat_set_keys [OF Cons.prems(2) c]])
  from h a b show ?case
    by (auto simp: amount_harmless_def amount_value_def Let_def split: sum.splits py_error.splits)
qed

lemma filter_entries_with_answers:
  assumes "list_all (typed_record L) data" and "\<not> bad_format_with L df" and "\<not> bad_format_with L dt"
  shows "\<exists>r. filter_entries_with L data df dt c = Inr r"
proof -
  let ?es = "filter (satisfies df dt c) data"
  from assms(1) have "list_all (\<lambda>e. is_str (dict_get_default e ''date'' (PStr []))) data"
    by (simp add: list_all_iff typed_record_def)
  then have es: "filter_loop df dt c data = Inr ?es"
    by (rule filter_loop_dated)
  from assms(1) have t: "list_all (typed_record L) ?es"
    by (simp add: list_all_iff)
  then have "list_all (amount_harmless L) ?es"
    by (simp add: list_all_iff typed_record_def)
  from total_loop_with_harmless [OF this] obtain tot where
    tot: "total_loop_with L ?es (lib_zero L) = Inr tot"
    by blast
  from categories_loop_with_typed [OF t, of "[]"] obtain cats where
    cats: "categories_loop_with L ?es [] = Inr cats" "list_all (\<lambda>i. is_str (fst i)) cats"
    by auto
  from str_keys_all [OF cats(2)] obtain cs where "str_keys cats = Some cs"
    by blast
  with assms(2,3) es tot cats(1) show ?thesis
    by (simp add: filter_entries_with_def)
qed

text \<open>
  Claim C3. For every implementation of the library: whenever \<^verbatim>\<open>GET /entries\<close> answers,
  its list of entries is the store filtered by the provided bounds: a record is in it if
  and only if it is in the store and its date is not below \<^verbatim>\<open>date_from\<close>, not above
  \<^verbatim>\<open>date_to\<close> (both in the lexicographic order of strings) and its category equals the
  given one, for each bound that is provided (present and not empty); the list keeps the
  order of the store. The scan yields this list on every store whose dates are strings,
  and the endpoint answers with it on every store of typed records and well-formed bounds.
\<close>

theorem filter_membership_and_order:
  "(filter_entries_with L data df dt c = Inr r \<longrightarrow>
      entries r = filter (satisfies df dt c) data
      \<and> (\<forall>e. e \<in> set (entries r) \<longleftrightarrow> e \<in> set data \<and> satisfies df dt c e)
      \<and> subseq (entries r) data)
   \<and> (list_all (\<lambda>e. is_str (dict_get_default e ''date'' (PStr []))) data \<longrightarrow>
        filter_loop df dt c data = Inr (filter (satisfies df dt c) data))
   \<and> (list_all (typed_record L) data \<and> \<not> bad_format_with L df \<and> \<not> bad_format_with L dt \<longrightarrow>
        (\<exists>r'. filter_entries_with L data df dt c = Inr r'
              \<and> entries r' = filter (satisfies df dt c) data))"
proof (intro conjI impI)
  assume "filter_entries_with L data df dt c = Inr r"
  then have "filter_loop df dt c data = Inr (entries r)"
    by (rule filter_entries_with_parts)
  then show e: "entries r = filter (satisfies df dt c) data"
    by (rule filter_loop_filter)
  then show "\<forall>e. e \<in> set (entries r) \<longleftrightarrow> e \<in> set data \<and> satisfies df dt c e"
    by simp
  from e show "subseq (entries r) data"
    by simp
next
  assume "list_all (\<lambda>e. is_str (dict_get_default e ''date'' (PStr []))) data"
  then show "filter_loop df dt c data = Inr (filter (satisfies df dt c) data)"
    by (rule filter_loop_dated)
next
  assume a: "list_all (typed_record L) data \<and> \<not> bad_format_with L df \<and> \<not> bad_format_with L dt"
  then obtain r' where r': "filter_entries_with L data df dt c = Inr r'"
    using filter_entries_with_answers [of L data df dt c] by blast
  then have "filter_loop df dt c data = Inr (entries r')"
    by (rule filter_entries_with_parts)
  then have "entries r' = filter (satisfies df dt c) data"
    by (rule filter_loop_filter)
  with r' show "\<exists>r'. filter_entries_with L data df dt c = Inr r'
              \<and> entries r' = filter (satisfies df dt c) data"
    by blast
qed

text \<open>
  Claim C2. For every implementation of the library and any combination of the three
  filters: whenever \<^verbatim>\<open>GET /entries\<close> answers, \<^verbatim>\<open>total\<close> counts all matched entries and
  \<^verbatim>\<open>entries\<close> lists them; \<^verbatim>\<open>total_amount\<close> is the string of the float sum of the
  amounts that parse among the matched entries; every category holds the float sum of the
  amounts that parse among its matched entries, and is absent when there is none; and
  removing the entries whose amount does not parse from the store changes only
  \<^verbatim>\<open>total\<close> and \<^verbatim>\<open>entries\<close>. The endpoint answers on every store of typed records and
  well-formed bounds.
\<close>

theorem filter_sum_law:
  "(filter_entries_with L data df dt c = Inr r \<longrightarrow>
      total r = length (entries r)
      \<and> entries r = filter (satisfies df dt c) data
      \<and> total_amount r = lib_str L (float_sum L (parsed_amounts L (entries r)))
      \<and> (\<forall>k. map_of (categories r) k
               = (if parsed_amounts L (filter (\<lambda>e. category_key e = PStr k) (entries r)) = []
                  then None
                  else Some (float_sum L
                         (parsed_amounts L (filter (\<lambda>e. category_key e = PStr k) (entries r))))))
      \<and> filter_entries_with L (filter (amount_parses L) data) df dt c
           = Inr (r\<lparr>total := length (filter (amount_parses L) (entries r)),
                    entries := filter (amount_parses L) (entries r)\<rparr>))
   \<and> (list_all (typed_record L) data \<and> \<not> bad_format_with L df \<and> \<not> bad_format_with L dt \<longrightarrow>
        (\<exists>r'. filter_entries_with L data df dt c = Inr r'))"
proof (intro conjI impI allI)
  assume a: "filter_entries_with L data df dt c = Inr r"
  note p = filter_entries_with_parts [OF a]
  from p(3) obtain t where t: "total_loop_with L (entries r) (lib_zero L) = Inr t"
      "total_amount r = lib_str L t"
    by blast
  from p(4) obtain cats where cats: "categories_loop_with L (entries r) [] = Inr cats"
      "str_keys cats = Some (categories r)"
    by blast
  show "total r = length (entries r)"
    by (rule p(2))
  show "entries r = filter (satisfies df dt c) data"
    using p(1) by (rule filter_loop_filter)
  show "total_amount r = lib_str L (float_sum L (parsed_amounts L (entries r)))"
    using total_loop_with_sum [OF t(1)] t(2) by (simp add: float_sum_def)
  show "map_of (categories r) k
               = (if parsed_amounts L (filter (\<lambda>e. category_key e = PStr k) (entries r)) = []
                  then None
                  else Some (float_sum L
                         (parsed_amounts L (filter (\<lambda>e. category_key e = PStr k) (entries r)))))" for k
    using str_keys_find [OF cats(2), of k] categories_loop_with_find [OF cats(1), of k]
    by (simp add: contributions_parsed float_sum_def)
  show "filter_entries_with L (filter (amount_parses L) data) df dt c
           = Inr (r\<lparr>total := length (filter (amount_parses L) (entries r)),
                    entries := filter (amount_parses L) (entries r)\<rparr>)"
    using filter_loop_sub [OF p(1), of "amount_parses L"] total_loop_with_parses [OF t(1)]
      categories_loop_with_parses [OF cats(1)] cats(2) t(2) p(5,6)
    by (simp add: filter_entries_with_def)
next
  assume "list_all (typed_record L) data \<and> \<not> bad_format_with L df \<and> \<not> bad_format_with L dt"
  then show "\<exists>r'. filter_entries_with L data df dt c = Inr r'"
    using filter_entries_with_answers [of L data df dt c] by blast
qed

lemmas mixed_eval = mixed_store_def rec_jan_abc_def rec_jan_ten_def rec_feb_def rec_mar_def

lemma mixed_typed: "list_all (typed_record decimal_library) mixed_store"
  by (simp add: typed_record_def amount_harmless_def amount_value_def category_key_def is_str_def
        mixed_eval dict_get_default_def decimal_library_def float_eval)

lemma mixed_dated: "list_all (\<lambda>e. is_str (dict_get_default e ''date'' (PStr []))) mixed_store"
  by (simp add: is_str_def mixed_eval dict_get_default_def)

lemma good_bounds:
  "\<not> bad_format_with decimal_library (Some ''2023-01-16'')"
  "\<not> bad_format_with decimal_library (Some ''2023-01-01'')"
  "\<not> bad_format_with decimal_library (Some ''2023-02-28'')"
  by (simp_all add: valid_date_decimal is_valid_date_format_def date_shape_def is_digit_def)

lemma mixed_food:
  "filter (satisfies (Some ''2023-01-16'') (Some ''2023-02-28'') (Some ''food'')) mixed_store
     = [rec_jan_ten]"
  by (simp add: satisfies_def entry_date_def mixed_eval dict_get_default_def dict_get_def)

lemma mixed_dates:
  "filter (satisfies (Some ''2023-01-01'') (Some ''2023-02-28'') None) mixed_store
     = [rec_jan_abc, rec_jan_ten, rec_feb]"
  by (simp add: satisfies_def entry_date_def mixed_eval dict_get_default_def dict_get_def)

theorem filter_membership_and_order_witness:
  "filter_loop (Some ''2023-01-16'') (Some ''2023-02-28'') (Some ''food'') mixed_store
     = Inr [rec_jan_ten]
   \<and> \<not> isl (filter_entries_with decimal_library mixed_store
               (Some ''2023-01-16'') (Some ''2023-02-28'') (Some ''food''))
   \<and> entries (projr (filter_entries_with decimal_library mixed_store
               (Some ''2023-01-16'') (Some ''2023-02-28'') (Some ''food''))) = [rec_jan_ten]"
proof -
  note law = filter_membership_and_order [of decimal_library mixed_store "Some ''2023-01-16''"
          "Some ''2023-02-28''" "Some ''food''"]
  from law mixed_dated
  have "filter_loop (Some ''2023-01-16'') (Some ''2023-02-28'') (Some ''food'') mixed_store
     = Inr [rec_jan_ten]"
    by (simp add: mixed_food)
  moreover from law mixed_typed good_bounds obtain r where
    "filter_entries_with decimal_library mixed_store
       (Some ''2023-01-16'') (Some ''2023-02-28'') (Some ''food'') = Inr r"
    "entries r = [rec_jan_ten]"
    by (auto simp: mixed_food)
  ultimately show ?thesis
    by simp
qed

lemma mixed_parsed:
  "parsed_amounts decimal_library [rec_jan_abc, rec_jan_ten, rec_feb] = [10, 5 / 2]"
  by (simp add: parsed_amounts_def parsed_amount_def amount_value_def mixed_eval
        dict_get_default_def decimal_library_def float_eval)

lemma mixed_keys:
  "category_key rec_jan_abc = PStr ''food''" "category_key rec_jan_ten = PStr ''food''"
  "category_key rec_feb = PStr ''transport''"
  by (simp_all add: category_key_def mixed_eval dict_get_default_def)

lemma mixed_parsed_food: "parsed_amounts decimal_library [rec_jan_abc, rec_jan_ten] = [10]"
  by (simp add: parsed_amounts_def parsed_amount_def amount_value_def mixed_eval
        dict_get_default_def decimal_library_def float_eval)

theorem filter_sum_law_witness:
  "\<not> isl (filter_entries_with decimal_library mixed_store
            (Some ''2023-01-01'') (Some ''2023-02-28'') None)
   \<and> total (projr (filter_entries_with decimal_library mixed_store
            (Some ''2023-01-01'') (Some ''2023-02-28'') None)) = 3
   \<and> entries (projr (filter_entries_with decimal_library mixed_store
            (Some ''2023-01-01'') (Some ''2023-02-28'') None)) = [rec_jan_abc, rec_jan_ten, rec_feb]
   \<and> total_amount (projr (filter_entries_with decimal_library mixed_store
            (Some ''2023-01-01'') (Some ''2023-02-28'') None)) = ''12.5''
   \<and> map_of (categories (projr (filter_entries_with decimal_library mixed_store
            (Some ''2023-01-01'') (Some ''2023-02-28'') None))) ''food'' = Some 10"
proof -
  let ?fe = "filter_entries_with decimal_library mixed_store
            (Some ''2023-01-01'') (Some ''2023-02-28'') None"
  have s: "lib_str decimal_library (float_sum decimal_library [10, 5 / 2]) = ''12.5''"
    by (simp add: decimal_library_def float_sum_def str_eval)
  have f: "float_sum decimal_library [10] = 10"
    by (simp add: decimal_library_def float_sum_def)
  from mixed_typed good_bounds obtain r where r: "?fe = Inr r"
    using filter_sum_law [of decimal_library mixed_store "Some ''2023-01-01''"
          "Some ''2023-02-28''" None] by blast
  with filter_sum_law [of decimal_library mixed_store "Some ''2023-01-01''"
          "Some ''2023-02-28''" None r]
  have "total r = length (entries r)" "entries r = [rec_jan_abc, rec_jan_ten, rec_feb]"
    "total_amount r = lib_str decimal_library (float_sum decimal_library
        (parsed_amounts decimal_library (entries r)))"
    "map_of (categories r) ''food''
       = (if parsed_amounts decimal_library
               (filter (\<lambda>e. category_key e = PStr ''food'') (entries r)) = []
          then None
          else Some (float_sum decimal_library (parsed_amounts decimal_library
                 (filter (\<lambda>e. category_key e = PStr ''food'') (entries r)))))"
    by (simp_all add: mixed_dates)
  then show ?thesis
    by (simp add: r mixed_keys mixed_parsed mixed_parsed_food s f)
qed

end
